theory Spec2Isabelle
  imports Complex_Main
begin

section \<open>JavaScript values\<close>

text \<open>
  The rule engine works on untyped run-time values: a rule descriptor reaches
  \<open>validateRule\<close> as a \<open>Record<string, unknown>\<close>, and the value picked from the
  context is \<open>any\<close>. Values are modelled as JSON-like data plus \<open>undefined\<close>.
  Arrays and objects carry the reference that JavaScript compares them by.

  A number is the value of an IEEE double: \<open>NaN\<close>, an infinity, or a rational
  (\<open>+0\<close> and \<open>-0\<close> are both \<open>Finite 0\<close>; every operation used here treats them alike).
\<close>

type_synonym ref = nat

datatype jsnum = NaN | NegInfinity | Finite rat | PosInfinity

datatype jsval =
    JUndefined
  | JNull
  | JBool bool
  | JNumber jsnum
  | JString string
  | JArray ref "jsval list"
  | JObject ref "(string \<times> jsval) list"

text \<open>The relational operators on numbers: \<open>a < b\<close> is false as soon as one side is
  \<open>NaN\<close>; \<open>a > b\<close> is \<open>b < a\<close>; \<open>a <= b\<close> and \<open>a >= b\<close> are the negation of the
  opposite strict comparison, except that \<open>NaN\<close> makes them false as well.\<close>

fun js_lt :: "jsnum \<Rightarrow> jsnum \<Rightarrow> bool" where
  "js_lt NaN _ = False"
| "js_lt _ NaN = False"
| "js_lt PosInfinity _ = False"
| "js_lt _ NegInfinity = False"
| "js_lt NegInfinity _ = True"
| "js_lt _ PosInfinity = True"
| "js_lt (Finite a) (Finite b) = (a < b)"

definition js_gt :: "jsnum \<Rightarrow> jsnum \<Rightarrow> bool" where
  "js_gt a b = js_lt b a"

definition js_lte :: "jsnum \<Rightarrow> jsnum \<Rightarrow> bool" where
  "js_lte a b = (a \<noteq> NaN \<and> b \<noteq> NaN \<and> \<not> js_lt b a)"

definition js_gte :: "jsnum \<Rightarrow> jsnum \<Rightarrow> bool" where
  "js_gte a b = (a \<noteq> NaN \<and> b \<noteq> NaN \<and> \<not> js_lt a b)"

text \<open>\<open>a === b\<close>: no conversion, \<open>NaN\<close> differs from itself, arrays and objects are
  equal when they are the same reference.\<close>

fun strict_equals :: "jsval \<Rightarrow> jsval \<Rightarrow> bool" where
  "strict_equals JUndefined JUndefined = True"
| "strict_equals JNull JNull = True"
| "strict_equals (JBool a) (JBool b) = (a = b)"
| "strict_equals (JNumber a) (JNumber b) = (a \<noteq> NaN \<and> a = b)"
| "strict_equals (JString a) (JString b) = (a = b)"
| "strict_equals (JArray r _) (JArray r' _) = (r = r')"
| "strict_equals (JObject r _) (JObject r' _) = (r = r')"
| "strict_equals _ _ = False"

text \<open>SameValueZero, the comparison of \<open>Array.prototype.includes\<close>: as \<open>===\<close>, but
  \<open>NaN\<close> is the same value as \<open>NaN\<close>.\<close>

fun same_value_zero :: "jsval \<Rightarrow> jsval \<Rightarrow> bool" where
  "same_value_zero (JNumber a) (JNumber b) = (a = b)"
| "same_value_zero x y = strict_equals x y"

text \<open>\<open>xs.includes(v)\<close> on an array, searching from index 0.\<close>

fun array_includes :: "jsval list \<Rightarrow> jsval \<Rightarrow> bool" where
  "array_includes [] v = False"
| "array_includes (x # xs) v = (if same_value_zero x v then True else array_includes xs v)"

text \<open>\<open>xs.join(sep)\<close> on an array of strings.\<close>

fun join :: "string \<Rightarrow> string list \<Rightarrow> string" where
  "join sep [] = []"
| "join sep [x] = x"
| "join sep (x # y # ys) = x @ sep @ join sep (y # ys)"

text \<open>Truthiness (\<open>!x\<close> is its negation): \<open>undefined\<close>, \<open>null\<close>, \<open>false\<close>, \<open>0\<close>,
  \<open>NaN\<close> and the empty string are falsy; every array and object is truthy.\<close>

fun truthy :: "jsval \<Rightarrow> bool" where
  "truthy JUndefined = False"
| "truthy JNull = False"
| "truthy (JBool b) = b"
| "truthy (JNumber n) = (n \<noteq> NaN \<and> n \<noteq> Finite 0)"
| "truthy (JString s) = (s \<noteq> [])"
| "truthy (JArray _ _) = True"
| "truthy (JObject _ _) = True"

fun isArray :: "jsval \<Rightarrow> bool" where
  "isArray (JArray _ _) = True"
| "isArray _ = False"

text \<open>Modelled from the spec: \<open>isString\<close> of \<open>@medusajs/utils\<close> is not among the
  sources; the spec says a field fails "when it is not a string".\<close>

fun isString :: "jsval \<Rightarrow> bool" where
  "isString (JString _) = True"
| "isString _ = False"

section \<open>Errors, rules and the host\<close>

text \<open>\<open>MedusaError\<close> carries a type and a message; the engine only raises
  \<open>MedusaError.Types.INVALID_DATA\<close>. A call of something that is not a function, a
  property read on \<open>null\<close>, or the conversion of an object that has no usable
  \<open>toString\<close> or \<open>valueOf\<close> raises JavaScript's \<open>TypeError\<close>.

  \<open>OutsideModel\<close> is not an error of the program. The reference host below returns it
  where its model of a JavaScript built-in stops, so that it never gives a value the
  runtime would not give.\<close>

datatype error_type = INVALID_DATA

datatype error = MedusaError error_type string | TypeError | OutsideModel

text \<open>A rule descriptor as it exists at run time: three properties holding any value
  (\<open>JUndefined\<close> when the property is missing). The type \<open>Rule\<close> of the source
  promises a string, one of the operator names, and a string, string array or null,
  but nothing enforces it at run time except \<open>validateRule\<close>.\<close>

record rule =
  attribute :: jsval
  operator :: jsval
  rvalue :: jsval

text \<open>
  What the engine calls and does not define is a parameter of the model, so that
  every theorem holds for every host:
  \<^item> \<open>pickValueFromObject\<close> of \<open>@medusajs/utils\<close> (not among the sources): the lookup
    of a path in the context; it may raise;
  \<^item> \<open>Date_parse v\<close>: the number \<open>Date.parse(v)\<close> returns, \<open>NaN\<close> when \<open>v\<close> is not
    recognised as a date (outside the ISO format the recognised strings depend on
    the JavaScript engine), or the exception it raises when \<open>v\<close> cannot be converted
    to a string;
  \<^item> \<open>new_Date v\<close>: the time value of \<open>new Date(v)\<close>, which is what \<open>>\<close>, \<open>>=\<close>,
    \<open><\<close>, \<open><=\<close> compare two \<open>Date\<close> objects by (\<open>NaN\<close> for an invalid date), or
    the exception the constructor raises;
  \<^item> \<open>Number v\<close>: the number \<open>Number(v)\<close> returns, or the exception it raises;
  \<^item> \<open>non_array_includes rv cv\<close>: the outcome of \<open>rv.includes(cv)\<close> when \<open>rv\<close> is
    not an array (a substring test on a string, a \<open>TypeError\<close> on \<open>null\<close>, ...),
    as an exception or the truthiness of the result;
  \<^item> \<open>unregistered_call op cv rv\<close>: the outcome of
    \<open>operatorsPredicate[op](cv, rv)\<close> when \<open>op\<close> is not one of the eight key
    strings of the table (a \<open>TypeError\<close> when the property is undefined, something
    else for a property inherited from \<open>Object.prototype\<close> or a key coerced from a
    non-string), as an exception or the truthiness of the result.
\<close>

record 'c host =
  pickValueFromObject :: "jsval \<Rightarrow> 'c \<Rightarrow> error + jsval"
  Date_parse :: "jsval \<Rightarrow> error + jsnum"
  new_Date :: "jsval \<Rightarrow> error + jsnum"
  Number :: "jsval \<Rightarrow> error + jsnum"
  non_array_includes :: "jsval \<Rightarrow> jsval \<Rightarrow> error + bool"
  unregistered_call :: "jsval \<Rightarrow> jsval \<Rightarrow> jsval \<Rightarrow> error + bool"

text \<open>Modelled from the spec: the enum \<open>RuleOperator\<close> of \<open>@medusajs/utils\<close> is
  not among the sources; the spec lists its values as
  \<open>in, nin, eq, ne, gt, gte, lt, lte\<close>.\<close>

definition RuleOperator_IN :: string where
  "RuleOperator_IN = ''in''"

definition RuleOperator_NIN :: string where
  "RuleOperator_NIN = ''nin''"

definition availableOperators :: "string list" where
  "availableOperators = [''in'', ''nin'', ''eq'', ''ne'', ''gt'', ''gte'', ''lt'', ''lte'']"

section \<open>The operator table\<close>

text \<open>\<open>isDate(str)\<close> is \<open>!isNaN(Date.parse(str))\<close>; it raises when \<open>Date.parse\<close> does.\<close>

definition isDate :: "('c, 'z) host_scheme \<Rightarrow> jsval \<Rightarrow> error + bool" where
  "isDate h str = (case Date_parse h str of Inl e \<Rightarrow> Inl e | Inr n \<Rightarrow> Inr (n \<noteq> NaN))"

text \<open>The condition \<open>isDate(contextValue) && isDate(ruleValue)\<close>: the rule value is
  only parsed when the context value is a date.\<close>

definition both_dates :: "('c, 'z) host_scheme \<Rightarrow> jsval \<Rightarrow> jsval \<Rightarrow> error + bool" where
  "both_dates h contextValue ruleValue =
     (case isDate h contextValue of
        Inl e \<Rightarrow> Inl e
      | Inr is_date \<Rightarrow> if is_date then isDate h ruleValue else Inr False)"

text \<open>\<open>conv(a) rel conv(b)\<close> for \<open>conv\<close> one of \<open>new Date\<close> and \<open>Number\<close>: the left
  operand is converted first, and an exception of either conversion leaves the
  comparison.\<close>

definition compare_converted ::
  "(jsval \<Rightarrow> error + jsnum) \<Rightarrow> (jsnum \<Rightarrow> jsnum \<Rightarrow> bool) \<Rightarrow> jsval \<Rightarrow> jsval \<Rightarrow> error + bool" where
  "compare_converted conv rel a b =
     (case conv a of
        Inl e \<Rightarrow> Inl e
      | Inr x \<Rightarrow> (case conv b of Inl e \<Rightarrow> Inl e | Inr y \<Rightarrow> Inr (rel x y)))"

definition includes_call :: "('c, 'z) host_scheme \<Rightarrow> jsval \<Rightarrow> jsval \<Rightarrow> error + bool" where
  "includes_call h ruleValue contextValue =
     (case ruleValue of
        JArray _ xs \<Rightarrow> Inr (array_includes xs contextValue)
      | _ \<Rightarrow> non_array_includes h ruleValue contextValue)"

definition op_in :: "('c, 'z) host_scheme \<Rightarrow> jsval \<Rightarrow> jsval \<Rightarrow> error + bool" where
  "op_in h contextValue ruleValue = includes_call h ruleValue contextValue"

definition op_nin :: "('c, 'z) host_scheme \<Rightarrow> jsval \<Rightarrow> jsval \<Rightarrow> error + bool" where
  "op_nin h contextValue ruleValue =
     (case includes_call h ruleValue contextValue of
        Inl e \<Rightarrow> Inl e
      | Inr b \<Rightarrow> Inr (\<not> b))"

definition op_eq :: "jsval \<Rightarrow> jsval \<Rightarrow> error + bool" where
  "op_eq contextValue ruleValue = Inr (strict_equals contextValue ruleValue)"

definition op_ne :: "jsval \<Rightarrow> jsval \<Rightarrow> error + bool" where
  "op_ne contextValue ruleValue = Inr (\<not> strict_equals contextValue ruleValue)"

definition op_gt :: "('c, 'z) host_scheme \<Rightarrow> jsval \<Rightarrow> jsval \<Rightarrow> error + bool" where
  "op_gt h contextValue ruleValue =
     (case both_dates h contextValue ruleValue of
        Inl e \<Rightarrow> Inl e
      | Inr dates \<Rightarrow>
          if dates then compare_converted (new_Date h) js_gt contextValue ruleValue
          else compare_converted (Number h) js_gt contextValue ruleValue)"

definition op_gte :: "('c, 'z) host_scheme \<Rightarrow> jsval \<Rightarrow> jsval \<Rightarrow> error + bool" where
  "op_gte h contextValue ruleValue =
     (case both_dates h contextValue ruleValue of
        Inl e \<Rightarrow> Inl e
      | Inr dates \<Rightarrow>
          if dates then compare_converted (new_Date h) js_gte contextValue ruleValue
          else compare_converted (Number h) js_gte contextValue ruleValue)"

definition op_lt :: "('c, 'z) host_scheme \<Rightarrow> jsval \<Rightarrow> jsval \<Rightarrow> error + bool" where
  "op_lt h contextValue ruleValue =
     (case both_dates h contextValue ruleValue of
        Inl e \<Rightarrow> Inl e
      | Inr dates \<Rightarrow>
          if dates then compare_converted (new_Date h) js_lt contextValue ruleValue
          else compare_converted (Number h) js_lt contextValue ruleValue)"

definition op_lte :: "('c, 'z) host_scheme \<Rightarrow> jsval \<Rightarrow> jsval \<Rightarrow> error + bool" where
  "op_lte h contextValue ruleValue =
     (case both_dates h contextValue ruleValue of
        Inl e \<Rightarrow> Inl e
      | Inr dates \<Rightarrow>
          if dates then compare_converted (new_Date h) js_lte contextValue ruleValue
          else compare_converted (Number h) js_lte contextValue ruleValue)"

text \<open>The object literal \<open>operatorsPredicate\<close>: its own properties, by key.\<close>

definition operatorsPredicate ::
  "('c, 'z) host_scheme \<Rightarrow> string \<rightharpoonup> (jsval \<Rightarrow> jsval \<Rightarrow> error + bool)" where
  "operatorsPredicate h =
     map_of [(''in'', op_in h), (''nin'', op_nin h), (''eq'', op_eq), (''ne'', op_ne),
             (''gt'', op_gt h), (''gte'', op_gte h), (''lt'', op_lt h), (''lte'', op_lte h)]"

text \<open>\<open>operatorsPredicate[operator](contextValue, value)\<close>.\<close>

definition call_operator ::
  "('c, 'z) host_scheme \<Rightarrow> jsval \<Rightarrow> jsval \<Rightarrow> jsval \<Rightarrow> error + bool" where
  "call_operator h op contextValue ruleValue =
     (case op of
        JString key \<Rightarrow>
          (case operatorsPredicate h key of
             Some p \<Rightarrow> p contextValue ruleValue
           | None \<Rightarrow> unregistered_call h op contextValue ruleValue)
      | _ \<Rightarrow> unregistered_call h op contextValue ruleValue)"

section \<open>Evaluation\<close>

text \<open>\<open>Array.prototype.every\<close> and \<open>Array.prototype.some\<close> with a callback that may
  raise: the elements are visited in order, an exception ends the visit, \<open>every\<close>
  stops at the first falsy result and \<open>some\<close> at the first truthy one.\<close>

fun every :: "('a \<Rightarrow> error + bool) \<Rightarrow> 'a list \<Rightarrow> error + bool" where
  "every p [] = Inr True"
| "every p (x # xs) =
     (case p x of Inl e \<Rightarrow> Inl e | Inr b \<Rightarrow> if b then every p xs else Inr False)"

fun some :: "('a \<Rightarrow> error + bool) \<Rightarrow> 'a list \<Rightarrow> error + bool" where
  "some p [] = Inr False"
| "some p (x # xs) =
     (case p x of Inl e \<Rightarrow> Inl e | Inr b \<Rightarrow> if b then Inr True else some p xs)"

record options =
  someAreValid :: bool

text \<open>The callback \<open>predicate\<close> inside \<open>isContextValid\<close>.\<close>

definition predicate :: "('c, 'z) host_scheme \<Rightarrow> 'c \<Rightarrow> rule \<Rightarrow> error + bool" where
  "predicate h context r =
     (case pickValueFromObject h (attribute r) context of
        Inl e \<Rightarrow> Inl e
      | Inr contextValue \<Rightarrow> call_operator h (operator r) contextValue (rvalue r))"

text \<open>\<open>isContextValid(context, rules, options)\<close>; \<open>None\<close> is the omitted third
  argument, which defaults to \<open>{ someAreValid: false }\<close>.\<close>

definition isContextValid ::
  "('c, 'z) host_scheme \<Rightarrow> 'c \<Rightarrow> rule list \<Rightarrow> options option \<Rightarrow> error + bool" where
  "isContextValid h context rules opts =
     (let some_are_valid = (case opts of None \<Rightarrow> False | Some os \<Rightarrow> someAreValid os)
      in (if some_are_valid then some else every) (predicate h context) rules)"

section \<open>Validation\<close>

definition validateRule :: "rule \<Rightarrow> error + bool" where
  "validateRule r =
     (if \<not> truthy (attribute r) \<or> \<not> truthy (operator r) \<or> \<not> truthy (rvalue r) then
        Inl (MedusaError INVALID_DATA
               ''Rule must have an attribute, an operator and contextValue value'')
      else if \<not> isString (attribute r) then
        Inl (MedusaError INVALID_DATA ''Rule attribute must be contextValue string'')
      else if \<not> isString (operator r) then
        Inl (MedusaError INVALID_DATA ''Rule operator must be contextValue string'')
      else if \<not> array_includes (map JString availableOperators) (operator r) then
        Inl (MedusaError INVALID_DATA
               (''Rule operator '' @ (case operator r of JString s \<Rightarrow> s | _ \<Rightarrow> [])
                @ '' is not supported. Must be one of '' @ join '', '' availableOperators))
      else if strict_equals (operator r) (JString RuleOperator_IN)
              \<or> strict_equals (operator r) (JString RuleOperator_NIN) then
        (if \<not> isArray (rvalue r) then
           Inl (MedusaError INVALID_DATA
                  ''Rule value must be an array for in/nin operators'')
         else Inr True)
      else
        (if \<not> isString (rvalue r) then
           Inl (MedusaError INVALID_DATA
                  (''Rule value must be a string for the selected operator ''
                   @ (case operator r of JString s \<Rightarrow> s | _ \<Rightarrow> [])))
         else Inr True))"

text \<open>\<open>rules.forEach(validateRule); return true\<close>: the first exception leaves the
  loop, and the value \<open>validateRule\<close> returns is not used.\<close>

fun validateRules :: "rule list \<Rightarrow> error + bool" where
  "validateRules [] = Inr True"
| "validateRules (r # rs) =
     (case validateRule r of Inl e \<Rightarrow> Inl e | Inr _ \<Rightarrow> validateRules rs)"

section \<open>A reference host\<close>

text \<open>
  Concrete statements need a concrete host. The one below follows the program's
  runtime, Node.js, on a fragment of the values. Where its model of a built-in stops
  it returns \<open>OutsideModel\<close>.
\<close>

text \<open>Modelled from the spec: \<open>pickValueFromObject\<close> of \<open>@medusajs/utils\<close> is not among
  the sources; the spec describes it as "get by dotted/segmented path", "yielding
  undefined/absent if the path does not exist". Here the context is an object value, the
  path is split at the dots, and a path that is not a string raises.\<close>

fun split_on :: "char \<Rightarrow> string \<Rightarrow> string list" where
  "split_on c [] = [[]]"
| "split_on c (x # xs) =
     (if x = c then [] # split_on c xs
      else (case split_on c xs of [] \<Rightarrow> [[x]] | w # ws \<Rightarrow> (x # w) # ws))"

fun lookup_path :: "string list \<Rightarrow> jsval \<Rightarrow> jsval" where
  "lookup_path [] v = v"
| "lookup_path (k # ks) (JObject _ props) =
     (case map_of props k of None \<Rightarrow> JUndefined | Some v \<Rightarrow> lookup_path ks v)"
| "lookup_path (k # ks) _ = JUndefined"

definition reference_pick :: "jsval \<Rightarrow> jsval \<Rightarrow> error + jsval" where
  "reference_pick path context =
     (case path of
        JString s \<Rightarrow> Inr (lookup_path (split_on CHR ''.'' s) context)
      | _ \<Rightarrow> Inl TypeError)"

subsection \<open>Conversion to a string\<close>

text \<open>
  \<open>ToString\<close>, on the values modelled. An object holds data only, so a property
  \<open>toString\<close> of its own is not callable and hides \<open>Object.prototype.toString\<close>; the
  conversion then turns to \<open>valueOf\<close>, which is not callable either or returns the
  object itself, and raises \<open>TypeError\<close>. Any other object is \<open>"[object Object]"\<close>.
  Finite numbers and arrays are outside the model.
\<close>

definition to_string :: "jsval \<Rightarrow> error + string" where
  "to_string v =
     (case v of
        JUndefined \<Rightarrow> Inr ''undefined''
      | JNull \<Rightarrow> Inr ''null''
      | JBool b \<Rightarrow> Inr (if b then ''true'' else ''false'')
      | JNumber n \<Rightarrow>
          (case n of
             NaN \<Rightarrow> Inr ''NaN''
           | PosInfinity \<Rightarrow> Inr ''Infinity''
           | NegInfinity \<Rightarrow> Inr ''-Infinity''
           | Finite q \<Rightarrow> Inl OutsideModel)
      | JString s \<Rightarrow> Inr s
      | JArray r xs \<Rightarrow> Inl OutsideModel
      | JObject r props \<Rightarrow>
          (if ''toString'' \<in> fst ` set props then Inl TypeError
           else Inr ''[object Object]''))"

subsection \<open>Numerals\<close>

definition digit :: "char \<Rightarrow> nat option" where
  "digit c = (let n = (of_char c :: nat) in if 48 \<le> n \<and> n \<le> 57 then Some (n - 48) else None)"

definition is_letter :: "char \<Rightarrow> bool" where
  "is_letter c = (let n = (of_char c :: nat) in (65 \<le> n \<and> n \<le> 90) \<or> (97 \<le> n \<and> n \<le> 122))"

definition has_digit :: "string \<Rightarrow> bool" where
  "has_digit s = list_ex (\<lambda>c. digit c \<noteq> None) s"

fun decimal :: "string \<Rightarrow> nat \<Rightarrow> nat option" where
  "decimal [] acc = Some acc"
| "decimal (c # cs) acc =
     (case digit c of None \<Rightarrow> None | Some d \<Rightarrow> decimal cs (10 * acc + d))"

text \<open>A non-empty string of decimal digits, as its value.\<close>

definition unsigned_decimal :: "string \<Rightarrow> nat option" where
  "unsigned_decimal s = (if s = [] then None else decimal s 0)"

text \<open>An optional sign and at most 15 decimal digits: a double holds the value
  exactly.\<close>

definition exact_decimal :: "string \<Rightarrow> nat option" where
  "exact_decimal s = (if length s \<le> 15 then unsigned_decimal s else None)"

definition signed_decimal :: "string \<Rightarrow> int option" where
  "signed_decimal s =
     (case s of
        [] \<Rightarrow> None
      | c # cs \<Rightarrow>
          if c = CHR ''-'' then map_option (\<lambda>n. - int n) (exact_decimal cs)
          else if c = CHR ''+'' then map_option int (exact_decimal cs)
          else map_option int (exact_decimal s))"

text \<open>
  \<open>Number\<close> on a string: the empty string is 0; a signed decimal numeral is its
  value; digits with a hyphen after the first character (a date such as
  \<open>2024-01-01\<close>) are no numeral, hence \<open>NaN\<close>; and so is a word of letters other than
  \<open>Infinity\<close>. Fractions, exponents, other radixes, surrounding white space and longer
  numerals are outside the model.
\<close>

definition string_to_number :: "string \<Rightarrow> error + jsnum" where
  "string_to_number s =
     (if s = [] then Inr (Finite 0)
      else if has_digit s then
        (case signed_decimal s of
           Some i \<Rightarrow> Inr (Finite (of_int i))
         | None \<Rightarrow>
             if list_all (\<lambda>c. digit c \<noteq> None \<or> c = CHR ''-'') s \<and> CHR ''-'' \<in> set (tl s)
             then Inr NaN
             else Inl OutsideModel)
      else if list_all is_letter s \<and> s \<noteq> ''Infinity'' then Inr NaN
      else Inl OutsideModel)"

subsection \<open>Dates\<close>

text \<open>Days from 1 January 1970 to the first day of a month, and on by \<open>d - 1\<close> days: a
  day number beyond the month's length runs into the next month, as \<open>MakeDay\<close> has
  it.\<close>

definition days_from_civil :: "int \<Rightarrow> int \<Rightarrow> int \<Rightarrow> int" where
  "days_from_civil y m d =
     (let y' = (if m \<le> 2 then y - 1 else y);
          era = y' div 400;
          yoe = y' - era * 400;
          doy = (153 * (if m > 2 then m - 3 else m + 9) + 2) div 5 + d - 1;
          doe = yoe * 365 + yoe div 4 - yoe div 100 + doy
      in era * 146097 + doe - 719468)"

text \<open>The date-only form \<open>YYYY-MM-DD\<close> of the ECMAScript date-time string format,
  which \<open>Date.parse\<close> reads as midnight UTC, in milliseconds since 1 January 1970.
  The runtime takes a month from 01 to 12 and a day from 01 to 31.\<close>

definition iso_date_only :: "string \<Rightarrow> int option" where
  "iso_date_only s =
     (if length s = 10 \<and> s ! 4 = CHR ''-'' \<and> s ! 7 = CHR ''-'' then
        (case (unsigned_decimal (take 4 s), unsigned_decimal (take 2 (drop 5 s)),
               unsigned_decimal (drop 8 s)) of
           (Some y, Some m, Some d) \<Rightarrow>
             (if 1 \<le> m \<and> m \<le> 12 \<and> 1 \<le> d \<and> d \<le> 31
              then Some (days_from_civil (int y) (int m) (int d) * 86400000)
              else None)
         | _ \<Rightarrow> None)
      else None)"

text \<open>
  A string that is not in the ISO format goes to the runtime's fallback parser. Given a
  single numeral \<open>n\<close> of one to three digits, it reads \<open>n\<close> from 1 to 12 as the first
  day of that month of 2001 and from 13 to 31 as no date; any other \<open>n\<close> is a year (0 to
  49 in the 2000s, 50 to 99 in the 1900s) and the date is its first of January. The
  result is a day in local time.
\<close>

definition bare_numeral_day :: "nat \<Rightarrow> int option" where
  "bare_numeral_day n =
     (if 1 \<le> n \<and> n \<le> 12 then Some (days_from_civil 2001 (int n) 1)
      else if 1 \<le> n \<and> n \<le> 31 then None
      else if n \<le> 49 then Some (days_from_civil (2000 + int n) 1 1)
      else if n \<le> 99 then Some (days_from_civil (1900 + int n) 1 1)
      else Some (days_from_civil (int n) 1 1))"

text \<open>The time value of that local midnight where local time is \<open>tz\<close> milliseconds
  ahead of UTC.\<close>

definition bare_numeral_time :: "int \<Rightarrow> nat \<Rightarrow> jsnum" where
  "bare_numeral_time tz n =
     (case bare_numeral_day n of
        None \<Rightarrow> NaN
      | Some day \<Rightarrow> Finite (of_int (day * 86400000 - tz)))"

text \<open>
  \<open>Date.parse\<close> on a string: an ISO date, else a string without any digit (no date), else
  a single numeral of one to three digits. Every other string is outside the model.
\<close>

definition parse_date_string :: "int \<Rightarrow> string \<Rightarrow> error + jsnum" where
  "parse_date_string tz s =
     (case iso_date_only s of
        Some ms \<Rightarrow> Inr (Finite (of_int ms))
      | None \<Rightarrow>
          if \<not> has_digit s then Inr NaN
          else if length s \<le> 3 then
            (case unsigned_decimal s of
               Some n \<Rightarrow> Inr (bare_numeral_time tz n)
             | None \<Rightarrow> Inl OutsideModel)
          else Inl OutsideModel)"

definition reference_Date_parse :: "int \<Rightarrow> jsval \<Rightarrow> error + jsnum" where
  "reference_Date_parse tz v =
     (case to_string v of Inl e \<Rightarrow> Inl e | Inr s \<Rightarrow> parse_date_string tz s)"

text \<open>\<open>TimeClip\<close>: a time value is an integral number of milliseconds of magnitude at
  most \<open>8.64e15\<close>.\<close>

definition time_clip :: "jsnum \<Rightarrow> jsnum" where
  "time_clip n =
     (case n of
        Finite q \<Rightarrow>
          (if \<bar>q\<bar> \<le> 8640000000000000
           then Finite (of_int (if 0 \<le> q then \<lfloor>q\<rfloor> else \<lceil>q\<rceil>))
           else NaN)
      | _ \<Rightarrow> NaN)"

text \<open>\<open>new Date(v)\<close>: a value that is a string once made primitive is parsed, any other
  is converted to a number and clipped.\<close>

definition reference_new_Date :: "int \<Rightarrow> jsval \<Rightarrow> error + jsnum" where
  "reference_new_Date tz v =
     (case v of
        JUndefined \<Rightarrow> Inr NaN
      | JNull \<Rightarrow> Inr (Finite 0)
      | JBool b \<Rightarrow> Inr (Finite (if b then 1 else 0))
      | JNumber n \<Rightarrow> Inr (time_clip n)
      | _ \<Rightarrow> reference_Date_parse tz v)"

definition reference_Number :: "jsval \<Rightarrow> error + jsnum" where
  "reference_Number v =
     (case v of
        JUndefined \<Rightarrow> Inr NaN
      | JNull \<Rightarrow> Inr (Finite 0)
      | JBool b \<Rightarrow> Inr (Finite (if b then 1 else 0))
      | JNumber n \<Rightarrow> Inr n
      | JString s \<Rightarrow> string_to_number s
      | JArray r xs \<Rightarrow> Inl OutsideModel
      | JObject r props \<Rightarrow>
          (if ''toString'' \<in> fst ` set props then Inl TypeError else Inr NaN))"

subsection \<open>Calls that leave the code at hand\<close>

fun is_substring :: "string \<Rightarrow> string \<Rightarrow> bool" where
  "is_substring t [] = (t = [])"
| "is_substring t (c # cs) = (take (length t) (c # cs) = t \<or> is_substring t cs)"

text \<open>\<open>rv.includes(cv)\<close> when \<open>rv\<close> is not an array: a substring test on a string; a
  \<open>TypeError\<close> on \<open>undefined\<close> and \<open>null\<close>, which have no properties, and on a boolean,
  a number or an object of data, where \<open>includes\<close> is not a function.\<close>

definition reference_includes :: "jsval \<Rightarrow> jsval \<Rightarrow> error + bool" where
  "reference_includes rv cv =
     (case rv of
        JString s \<Rightarrow>
          (case to_string cv of Inl e \<Rightarrow> Inl e | Inr t \<Rightarrow> Inr (is_substring t s))
      | _ \<Rightarrow> Inl TypeError)"

text \<open>\<open>operatorsPredicate[op](cv, rv)\<close> when \<open>op\<close> is not one of the eight key strings:
  the key is \<open>op\<close> as a string; a key that names nothing is \<open>undefined\<close>, and calling
  it raises \<open>TypeError\<close>. Keys that \<open>Object.prototype\<close> defines, and keys of the table
  reached from a value that is not a string, are outside the model.\<close>

definition object_prototype_keys :: "string list" where
  "object_prototype_keys =
     [''constructor'', ''hasOwnProperty'', ''isPrototypeOf'', ''propertyIsEnumerable'',
      ''toLocaleString'', ''toString'', ''valueOf'', ''__proto__'', ''__defineGetter__'',
      ''__defineSetter__'', ''__lookupGetter__'', ''__lookupSetter__'']"

definition reference_unregistered_call :: "jsval \<Rightarrow> jsval \<Rightarrow> jsval \<Rightarrow> error + bool" where
  "reference_unregistered_call op cv rv =
     (case to_string op of
        Inl e \<Rightarrow> Inl e
      | Inr key \<Rightarrow>
          if key \<in> set availableOperators \<or> key \<in> set object_prototype_keys
          then Inl OutsideModel
          else Inl TypeError)"

subsection \<open>The host\<close>

text \<open>The host at a given offset of local time from UTC, in milliseconds; the reference
  host runs in UTC.\<close>

definition host_at :: "int \<Rightarrow> jsval host" where
  "host_at tz =
     \<lparr> pickValueFromObject = reference_pick,
       Date_parse = reference_Date_parse tz,
       new_Date = reference_new_Date tz,
       Number = reference_Number,
       non_array_includes = reference_includes,
       unregistered_call = reference_unregistered_call \<rparr>"

definition reference_host :: "jsval host" where
  "reference_host = host_at 0"

section \<open>Notions of the specification\<close>

text \<open>Two facts about the runtime's date parser, as properties of a host: a string in the
  date-only ISO form is the date it denotes, for \<open>Date.parse\<close> and for \<open>new Date\<close>
  alike; and a single numeral of one to three digits is read by the fallback parser, in
  a local time that is less than a day away from UTC.\<close>

definition reads_iso_dates :: "('c, 'z) host_scheme \<Rightarrow> bool" where
  "reads_iso_dates h =
     (\<forall>s ms. iso_date_only s = Some ms \<longrightarrow>
        Date_parse h (JString s) = Inr (Finite (of_int ms))
        \<and> new_Date h (JString s) = Inr (Finite (of_int ms)))"

definition reads_bare_numerals :: "('c, 'z) host_scheme \<Rightarrow> bool" where
  "reads_bare_numerals h =
     (\<forall>s n. length s \<le> 3 \<and> unsigned_decimal s = Some n \<longrightarrow>
        (\<exists>tz. \<bar>tz\<bar> \<le> 86400000
           \<and> Date_parse h (JString s) = Inr (bare_numeral_time tz n)
           \<and> new_Date h (JString s) = Inr (bare_numeral_time tz n)))"

text \<open>A value converts on a host when none of the three conversions raises on it.\<close>

definition converts :: "('c, 'z) host_scheme \<Rightarrow> jsval \<Rightarrow> bool" where
  "converts h v = (\<not> isl (Date_parse h v) \<and> \<not> isl (new_Date h v) \<and> \<not> isl (Number h v))"

definition is_comparison :: "jsval \<Rightarrow> bool" where
  "is_comparison op = (op \<in> JString ` {''gt'', ''gte'', ''lt'', ''lte''})"

text \<open>The specification's list of what makes a rule descriptor structurally invalid:
  a field missing or falsy; an attribute or an operator that is not a string; an
  operator outside the eight names; \<open>in\<close>/\<open>nin\<close> with a value that is not a sequence;
  any other operator with a value that is not a single string.\<close>

definition structurally_invalid :: "rule \<Rightarrow> bool" where
  "structurally_invalid r =
     (\<not> truthy (attribute r) \<or> \<not> truthy (operator r) \<or> \<not> truthy (rvalue r)
      \<or> \<not> isString (attribute r)
      \<or> \<not> isString (operator r)
      \<or> operator r \<notin> JString ` {''in'', ''nin'', ''eq'', ''ne'', ''gt'', ''gte'', ''lt'', ''lte''}
      \<or> ((operator r = JString ''in'' \<or> operator r = JString ''nin'') \<and> \<not> isArray (rvalue r))
      \<or> (operator r \<noteq> JString ''in'' \<and> operator r \<noteq> JString ''nin'' \<and> \<not> isString (rvalue r)))"

section \<open>Basic facts\<close>

lemma strict_equals_string_left: "strict_equals (JString s) v = (v = JString s)"
  by (cases v) auto

lemma same_value_zero_string: "same_value_zero (JString s) v = (v = JString s)"
  by (cases v) auto

lemma strict_equals_string: "strict_equals v (JString s) = (v = JString s)"
  by (cases v) auto

lemma array_includes_iff: "array_includes xs v = (\<exists>x\<in>set xs. same_value_zero x v)"
  by (induction xs) auto

lemma array_includes_strings: "array_includes (map JString ss) v = (\<exists>s\<in>set ss. v = JString s)"
  by (induction ss) (auto simp: strict_equals_string_left)

lemma isString_iff: "isString v = (\<exists>s. v = JString s)"
  by (cases v) auto

lemma isArray_iff: "isArray v = (\<exists>a xs. v = JArray a xs)"
  by (cases v) auto

lemma js_lt_NaN_right: "js_lt a NaN = False"
  by (cases a) auto

lemma nan_comparisons:
  "a = NaN \<or> b = NaN \<Longrightarrow> \<not> js_gt a b \<and> \<not> js_gte a b \<and> \<not> js_lt a b \<and> \<not> js_lte a b"
  by (auto simp: js_gt_def js_gte_def js_lte_def js_lt_NaN_right)

lemma finite_comparisons:
  "js_gt (Finite a) (Finite b) = (a > b)" "js_gte (Finite a) (Finite b) = (a \<ge> b)"
  "js_lt (Finite a) (Finite b) = (a < b)" "js_lte (Finite a) (Finite b) = (a \<le> b)"
  by (auto simp: js_gt_def js_gte_def js_lte_def)

lemma both_dates_True:
  "Date_parse h cv = Inr a \<Longrightarrow> a \<noteq> NaN \<Longrightarrow> Date_parse h rv = Inr b \<Longrightarrow> b \<noteq> NaN
   \<Longrightarrow> both_dates h cv rv = Inr True"
  by (simp add: both_dates_def isDate_def)

lemma both_dates_False:
  "Date_parse h cv = Inr NaN \<or> (Date_parse h cv = Inr a \<and> Date_parse h rv = Inr NaN)
   \<Longrightarrow> both_dates h cv rv = Inr False"
  by (auto simp: both_dates_def isDate_def)

lemma both_dates_raise: "Date_parse h cv = Inl e \<Longrightarrow> both_dates h cv rv = Inl e"
  by (simp add: both_dates_def isDate_def)

lemma join_availableOperators:
  "join '', '' availableOperators = ''in, nin, eq, ne, gt, gte, lt, lte''"
  by (simp add: availableOperators_def)

lemma operatorsPredicate_dom:
  "(operatorsPredicate h key \<noteq> None) = (key \<in> set availableOperators)"
proof -
  have "(operatorsPredicate h key = None) = (key \<notin> set availableOperators)"
    unfolding operatorsPredicate_def availableOperators_def
    by (simp only: map_of_eq_None_iff) simp
  then show ?thesis by simp
qed

lemma call_in: "call_operator h (JString ''in'') cv rv = op_in h cv rv"
  by (simp add: call_operator_def operatorsPredicate_def)

lemma call_nin: "call_operator h (JString ''nin'') cv rv = op_nin h cv rv"
  by (simp add: call_operator_def operatorsPredicate_def)

lemma call_eq: "call_operator h (JString ''eq'') cv rv = op_eq cv rv"
  by (simp add: call_operator_def operatorsPredicate_def)

lemma call_ne: "call_operator h (JString ''ne'') cv rv = op_ne cv rv"
  by (simp add: call_operator_def operatorsPredicate_def)

lemma call_gt: "call_operator h (JString ''gt'') cv rv = op_gt h cv rv"
  by (simp add: call_operator_def operatorsPredicate_def)

lemma call_gte: "call_operator h (JString ''gte'') cv rv = op_gte h cv rv"
  by (simp add: call_operator_def operatorsPredicate_def)

lemma call_lt: "call_operator h (JString ''lt'') cv rv = op_lt h cv rv"
  by (simp add: call_operator_def operatorsPredicate_def)

lemma call_lte: "call_operator h (JString ''lte'') cv rv = op_lte h cv rv"
  by (simp add: call_operator_def operatorsPredicate_def)

lemma comparison_on_dates:
  assumes "both_dates h cv rv = Inr True" "new_Date h cv = Inr d" "new_Date h rv = Inr e"
  shows "call_operator h (JString ''gt'') cv rv = Inr (js_gt d e)
     \<and> call_operator h (JString ''gte'') cv rv = Inr (js_gte d e)
     \<and> call_operator h (JString ''lt'') cv rv = Inr (js_lt d e)
     \<and> call_operator h (JString ''lte'') cv rv = Inr (js_lte d e)"
  using assms
  by (simp add: call_gt call_gte call_lt call_lte op_gt_def op_gte_def op_lt_def op_lte_def
      compare_converted_def)

lemma comparison_on_numbers:
  assumes "both_dates h cv rv = Inr False" "Number h cv = Inr x" "Number h rv = Inr y"
  shows "call_operator h (JString ''gt'') cv rv = Inr (js_gt x y)
     \<and> call_operator h (JString ''gte'') cv rv = Inr (js_gte x y)
     \<and> call_operator h (JString ''lt'') cv rv = Inr (js_lt x y)
     \<and> call_operator h (JString ''lte'') cv rv = Inr (js_lte x y)"
  using assms
  by (simp add: call_gt call_gte call_lt call_lte op_gt_def op_gte_def op_lt_def op_lte_def
      compare_converted_def)

lemma comparison_raises:
  assumes "both_dates h cv rv = Inl err"
  shows "call_operator h (JString ''gt'') cv rv = Inl err
     \<and> call_operator h (JString ''gte'') cv rv = Inl err
     \<and> call_operator h (JString ''lt'') cv rv = Inl err
     \<and> call_operator h (JString ''lte'') cv rv = Inl err"
  using assms
  by (simp add: call_gt call_gte call_lt call_lte op_gt_def op_gte_def op_lt_def op_lte_def)

lemma converts_D:
  "converts h v \<Longrightarrow> \<exists>a d x. Date_parse h v = Inr a \<and> new_Date h v = Inr d \<and> Number h v = Inr x"
  by (cases "Date_parse h v"; cases "new_Date h v"; cases "Number h v") (auto simp: converts_def)

lemma both_dates_returns:
  "Date_parse h cv = Inr a \<Longrightarrow> Date_parse h rv = Inr b \<Longrightarrow> \<exists>dates. both_dates h cv rv = Inr dates"
  by (auto simp: both_dates_def isDate_def)

lemma comparison_returns:
  assumes c: "converts h cv" "converts h rv" and op: "is_comparison op"
  shows "\<exists>res. call_operator h op cv rv = Inr res"
proof -
  from converts_D [OF c(1)] obtain a d x
    where cv: "Date_parse h cv = Inr a" "new_Date h cv = Inr d" "Number h cv = Inr x" by blast
  from converts_D [OF c(2)] obtain b e y
    where rv: "Date_parse h rv = Inr b" "new_Date h rv = Inr e" "Number h rv = Inr y" by blast
  from both_dates_returns [OF cv(1) rv(1)] obtain dates where bd: "both_dates h cv rv = Inr dates"
    by blast
  have four: "(\<exists>res. call_operator h (JString ''gt'') cv rv = Inr res)
      \<and> (\<exists>res. call_operator h (JString ''gte'') cv rv = Inr res)
      \<and> (\<exists>res. call_operator h (JString ''lt'') cv rv = Inr res)
      \<and> (\<exists>res. call_operator h (JString ''lte'') cv rv = Inr res)"
  proof (cases dates)
    case True
    with bd comparison_on_dates [of h cv rv d e] cv rv show ?thesis by simp
  next
    case False
    with bd comparison_on_numbers [of h cv rv x y] cv rv show ?thesis by simp
  qed
  from op have "op = JString ''gt'' \<or> op = JString ''gte'' \<or> op = JString ''lt'' \<or> op = JString ''lte''"
    by (auto simp: is_comparison_def)
  with four show ?thesis by blast
qed


lemma every_total:
  "(\<forall>x\<in>set xs. \<exists>b. p x = Inr b) \<Longrightarrow> every p xs = Inr (\<forall>x\<in>set xs. p x = Inr True)"
  by (induction xs) (auto split: sum.splits)

lemma some_total:
  "(\<forall>x\<in>set xs. \<exists>b. p x = Inr b) \<Longrightarrow> some p xs = Inr (\<exists>x\<in>set xs. p x = Inr True)"
  by (induction xs) (auto split: sum.splits)







lemma isContextValid_default: "isContextValid h context rules None = every (predicate h context) rules"
  by (simp add: isContextValid_def)



lemma single_rule: "isContextValid h context [r] opts = predicate h context r"
  by (cases "predicate h context r"; cases opts) (auto simp: isContextValid_def)


lemma validateRule_ok_iff: "validateRule r = Inr True \<longleftrightarrow> \<not> structurally_invalid r"
  by (auto simp: validateRule_def structurally_invalid_def strict_equals_string_left
      strict_equals_string RuleOperator_IN_def RuleOperator_NIN_def availableOperators_def)

lemma validateRule_result:
  "validateRule r = Inr True \<or> (\<exists>msg. validateRule r = Inl (MedusaError INVALID_DATA msg))"
  by (simp add: validateRule_def)

lemma validateRules_ok_iff: "validateRules rs = Inr True \<longleftrightarrow> (\<forall>r\<in>set rs. validateRule r = Inr True)"
proof (induction rs)
  case Nil
  show ?case by simp
next
  case (Cons r rs)
  show ?case
    using validateRule_result [of r] Cons.IH by (auto split: sum.splits)
qed

lemma validateRules_first_failure:
  "(\<forall>r\<in>set ok. validateRule r = Inr True) \<Longrightarrow> validateRule bad = Inl e
   \<Longrightarrow> validateRules (ok @ bad # rest) = Inl e"
  by (induction ok) auto

lemma validated_operator_registered:
  assumes "validateRule r = Inr True"
  shows "\<exists>key p. operator r = JString key \<and> operatorsPredicate h key = Some p"
proof -
  from assms have "array_includes (map JString availableOperators) (operator r)"
    unfolding validateRule_def by (simp split: if_splits)
  then obtain key where k: "key \<in> set availableOperators" "operator r = JString key"
    by (auto simp only: array_includes_strings)
  from k(1) have "operatorsPredicate h key \<noteq> None" by (simp only: operatorsPredicate_dom)
  with k(2) show ?thesis by auto
qed

lemma validated_predicate_returns:
  assumes v: "validateRule r = Inr True"
    and p: "pickValueFromObject h (attribute r) context = Inr cv"
    and c: "is_comparison (operator r) \<longrightarrow> converts h cv \<and> converts h (rvalue r)"
  shows "\<exists>b. predicate h context r = Inr b"
proof -
  from v have ni: "\<not> structurally_invalid r" by (simp add: validateRule_ok_iff)
  then have ops: "operator r \<in> JString ` {''in'', ''nin'', ''eq'', ''ne'', ''gt'', ''gte'', ''lt'', ''lte''}"
    by (simp add: structurally_invalid_def)
  have arr: "isArray (rvalue r)" if "operator r = JString ''in'' \<or> operator r = JString ''nin''"
    using ni that unfolding structurally_invalid_def by blast
  consider "operator r = JString ''in''" | "operator r = JString ''nin''"
    | "operator r = JString ''eq''" | "operator r = JString ''ne''"
    | "is_comparison (operator r)"
    using ops by (auto simp: is_comparison_def)
  then show ?thesis
  proof cases
    case 1
    with arr obtain a xs where "rvalue r = JArray a xs" by (auto simp: isArray_iff)
    with 1 p show ?thesis by (simp add: predicate_def call_in op_in_def includes_call_def)
  next
    case 2
    with arr obtain a xs where "rvalue r = JArray a xs" by (auto simp: isArray_iff)
    with 2 p show ?thesis by (simp add: predicate_def call_nin op_nin_def includes_call_def)
  next
    case 3 with p show ?thesis by (simp add: predicate_def call_eq op_eq_def)
  next
    case 4 with p show ?thesis by (simp add: predicate_def call_ne op_ne_def)
  next
    case 5
    with c have "converts h cv" "converts h (rvalue r)" by simp_all
    from comparison_returns [OF this 5] p show ?thesis by (simp add: predicate_def)
  qed
qed

lemma validated_attribute_string:
  "validateRule r = Inr True \<Longrightarrow> \<exists>s. s \<noteq> [] \<and> attribute r = JString s"
  by (cases "attribute r") (auto simp: validateRule_ok_iff structurally_invalid_def)

text \<open>
  Evaluating one rule can raise in four ways only: the path lookup raises; the operator
  is not a key of the operator table; the operator is \<open>in\<close> or \<open>nin\<close> and the value
  is not an array; or the operator is a comparison and a conversion raises on the
  context value or on the rule value.
\<close>

lemma predicate_failure_modes:
  assumes f: "predicate h context r = Inl e"
  shows "pickValueFromObject h (attribute r) context = Inl e
     \<or> (\<forall>key\<in>set availableOperators. operator r \<noteq> JString key)
     \<or> ((operator r = JString ''in'' \<or> operator r = JString ''nin'') \<and> \<not> isArray (rvalue r))
     \<or> (\<exists>cv. pickValueFromObject h (attribute r) context = Inr cv \<and> is_comparison (operator r)
           \<and> \<not> (converts h cv \<and> converts h (rvalue r)))"
proof (cases "pickValueFromObject h (attribute r) context")
  case (Inl e')
  with f show ?thesis by (simp add: predicate_def)
next
  case (Inr cv)
  show ?thesis
  proof (cases "\<exists>key\<in>set availableOperators. operator r = JString key")
    case False
    then show ?thesis by blast
  next
    case True
    then consider "operator r = JString ''in''" | "operator r = JString ''nin''"
      | "operator r = JString ''eq''" | "operator r = JString ''ne''"
      | "is_comparison (operator r)"
      unfolding availableOperators_def is_comparison_def by auto
    then show ?thesis
    proof cases
      case 1
      show ?thesis
      proof (cases "isArray (rvalue r)")
        case True
        then obtain a xs where "rvalue r = JArray a xs" by (auto simp: isArray_iff)
        with 1 Inr f show ?thesis by (simp add: predicate_def call_in op_in_def includes_call_def)
      next
        case False
        with 1 show ?thesis by blast
      qed
    next
      case 2
      show ?thesis
      proof (cases "isArray (rvalue r)")
        case True
        then obtain a xs where "rvalue r = JArray a xs" by (auto simp: isArray_iff)
        with 2 Inr f show ?thesis by (simp add: predicate_def call_nin op_nin_def includes_call_def)
      next
        case False
        with 2 show ?thesis by blast
      qed
    next
      case 3 with Inr f show ?thesis by (simp add: predicate_def call_eq op_eq_def)
    next
      case 4 with Inr f show ?thesis by (simp add: predicate_def call_ne op_ne_def)
    next
      case 5
      have "\<not> (converts h cv \<and> converts h (rvalue r))"
      proof
        assume "converts h cv \<and> converts h (rvalue r)"
        then have "converts h cv" "converts h (rvalue r)" by simp_all
        from comparison_returns [OF this 5] Inr f show False by (simp add: predicate_def)
      qed
      with Inr 5 show ?thesis by blast
    qed
  qed
qed

subsection \<open>The reference host on concrete values\<close>

lemma host_at_pick_string:
  "pickValueFromObject (host_at tz) (JString s) context
     = Inr (lookup_path (split_on CHR ''.'' s) context)"
  by (simp add: host_at_def reference_pick_def)

lemma reference_pick_string:
  "pickValueFromObject reference_host (JString s) context
     = Inr (lookup_path (split_on CHR ''.'' s) context)"
  by (simp add: reference_host_def host_at_pick_string)

lemma host_at_strings:
  "Date_parse (host_at tz) (JString s) = parse_date_string tz s"
  "new_Date (host_at tz) (JString s) = parse_date_string tz s"
  "Number (host_at tz) (JString s) = string_to_number s"
  by (simp_all add: host_at_def reference_Date_parse_def reference_new_Date_def
      reference_Number_def to_string_def)

lemma host_at_unconvertible:
  "Date_parse (host_at tz) (JObject r [(''toString'', v)]) = Inl TypeError"
  by (simp add: host_at_def reference_Date_parse_def to_string_def)

lemma reference_unconvertible:
  "Date_parse reference_host (JObject r [(''toString'', v)]) = Inl TypeError"
  by (simp add: reference_host_def host_at_unconvertible)


lemma iso_2024: "iso_date_only ''2024-01-01'' = Some 1704067200000"
  by (simp add: iso_date_only_def unsigned_decimal_def digit_def days_from_civil_def)

lemma iso_2023: "iso_date_only ''2023-01-01'' = Some 1672531200000"
  by (simp add: iso_date_only_def unsigned_decimal_def digit_def days_from_civil_def)

lemma iso_short: "length s \<le> 3 \<Longrightarrow> iso_date_only s = None"
  by (simp add: iso_date_only_def)

lemma decimal_10: "unsigned_decimal ''10'' = Some 10"
  by (simp add: unsigned_decimal_def digit_def)

lemma decimal_5: "unsigned_decimal ''5'' = Some 5"
  by (simp add: unsigned_decimal_def digit_def)

lemma decimal_13: "unsigned_decimal ''13'' = Some 13"
  by (simp add: unsigned_decimal_def digit_def)

lemma bare_10: "bare_numeral_time tz 10 = Finite (of_int (1001894400000 - tz))"
  by (simp add: bare_numeral_time_def bare_numeral_day_def days_from_civil_def)

lemma bare_5: "bare_numeral_time tz 5 = Finite (of_int (988675200000 - tz))"
  by (simp add: bare_numeral_time_def bare_numeral_day_def days_from_civil_def)

lemma unsigned_decimal_has_digit: "unsigned_decimal s = Some n \<Longrightarrow> has_digit s"
  by (cases s) (auto simp: unsigned_decimal_def has_digit_def split: option.splits if_splits)

lemma host_at_reads_iso_dates: "reads_iso_dates (host_at tz)"
  by (simp add: reads_iso_dates_def host_at_strings parse_date_string_def)

lemma host_at_reads_bare_numerals:
  assumes "\<bar>tz\<bar> \<le> 86400000"
  shows "reads_bare_numerals (host_at tz)"
  unfolding reads_bare_numerals_def
proof (intro allI impI)
  fix s n
  assume a: "length s \<le> 3 \<and> unsigned_decimal s = Some n"
  then have "parse_date_string tz s = Inr (bare_numeral_time tz n)"
    by (simp add: parse_date_string_def iso_short unsigned_decimal_has_digit)
  with assms show "\<exists>tz'. \<bar>tz'\<bar> \<le> 86400000
      \<and> Date_parse (host_at tz) (JString s) = Inr (bare_numeral_time tz' n)
      \<and> new_Date (host_at tz) (JString s) = Inr (bare_numeral_time tz' n)"
    by (auto simp: host_at_strings)
qed

lemma reference_dates:
  "Date_parse reference_host (JString ''2024-01-01'') = Inr (Finite 1704067200000)"
  "new_Date reference_host (JString ''2024-01-01'') = Inr (Finite 1704067200000)"
  "Date_parse reference_host (JString ''2023-01-01'') = Inr (Finite 1672531200000)"
  "new_Date reference_host (JString ''2023-01-01'') = Inr (Finite 1672531200000)"
  by (simp_all add: reference_host_def host_at_strings parse_date_string_def iso_2024 iso_2023)

lemma reference_13: "Date_parse reference_host (JString ''13'') = Inr NaN"
  by (simp add: reference_host_def host_at_strings parse_date_string_def iso_short
      decimal_13 unsigned_decimal_has_digit bare_numeral_time_def bare_numeral_day_def)

lemma reference_abc:
  "Date_parse reference_host (JString ''abc'') = Inr NaN"
  "Number reference_host (JString ''abc'') = Inr NaN"
  by (simp_all add: reference_host_def host_at_strings parse_date_string_def iso_short
      string_to_number_def has_digit_def digit_def is_letter_def)

lemma reference_numbers:
  "Number reference_host (JString ''13'') = Inr (Finite 13)"
  "Number reference_host (JString ''5'') = Inr (Finite 5)"
  by (simp_all add: reference_host_def host_at_strings string_to_number_def has_digit_def
      signed_decimal_def exact_decimal_def unsigned_decimal_def digit_def)

section \<open>Properties\<close>

subsection \<open>The comparison operators\<close>

text \<open>
  C1, as the claim states it: for every rule with a comparison operator the two values
  are compared as dates or else as numbers, with a boolean as the result. They are not
  when a conversion raises: \<open>Date.parse\<close> cannot make a string of an object whose
  \<open>toString\<close> is data, and the comparison raises \<open>TypeError\<close>.
\<close>

theorem unconvertible_comparison_counterexample:
  "call_operator reference_host (JString ''gt'') (JObject 1 [(''toString'', JString ''x'')])
     (JString ''5'') = Inl TypeError"
  by (simp add: call_gt op_gt_def both_dates_def isDate_def reference_unconvertible)

text \<open>
  C1, amended. For every host, \<open>gt\<close>, \<open>gte\<close>, \<open>lt\<close> and \<open>lte\<close> compare in two modes
  whenever the conversions return. When \<open>Date.parse\<close> returns a number other than
  \<open>NaN\<close> for the context value and for the rule value, the time values of the two
  \<open>Date\<close> objects are compared. When it returns \<open>NaN\<close> for the context value, or a
  number for the context value and \<open>NaN\<close> for the rule value, both sides go through
  \<open>Number\<close> and are compared as numbers, and the result is \<open>false\<close> as soon as one of them
  is \<open>NaN\<close>. On finite values each operator is the order of the rationals. When
  \<open>Date.parse\<close> raises on the context value, the comparison raises the same error.
  For \<open>gt\<close>: \<open>"2024-01-01"\<close> against \<open>"2023-01-01"\<close> is \<open>true\<close> on every host that reads
  ISO dates; \<open>"10"\<close> against \<open>"5"\<close> is \<open>true\<close> on every host that reads bare numerals as
  the runtime does, where both are dates of 2001; \<open>"abc"\<close> against \<open>"5"\<close> is \<open>false\<close> on
  every host for which \<open>"abc"\<close> is neither a date nor a number. Evaluating a single rule
  is this call on the value picked from the context.
\<close>

theorem dual_mode_comparison:
  "(Date_parse h cv = Inr a \<and> a \<noteq> NaN \<and> Date_parse h rv = Inr b \<and> b \<noteq> NaN
      \<and> new_Date h cv = Inr d \<and> new_Date h rv = Inr e \<longrightarrow>
        call_operator h (JString ''gt'') cv rv = Inr (js_gt d e)
        \<and> call_operator h (JString ''gte'') cv rv = Inr (js_gte d e)
        \<and> call_operator h (JString ''lt'') cv rv = Inr (js_lt d e)
        \<and> call_operator h (JString ''lte'') cv rv = Inr (js_lte d e))
   \<and> ((Date_parse h cv = Inr NaN \<or> (Date_parse h cv = Inr a \<and> Date_parse h rv = Inr NaN))
      \<and> Number h cv = Inr x \<and> Number h rv = Inr y \<longrightarrow>
        call_operator h (JString ''gt'') cv rv = Inr (js_gt x y)
        \<and> call_operator h (JString ''gte'') cv rv = Inr (js_gte x y)
        \<and> call_operator h (JString ''lt'') cv rv = Inr (js_lt x y)
        \<and> call_operator h (JString ''lte'') cv rv = Inr (js_lte x y)
        \<and> (x = NaN \<or> y = NaN \<longrightarrow>
              call_operator h (JString ''gt'') cv rv = Inr False
              \<and> call_operator h (JString ''gte'') cv rv = Inr False
              \<and> call_operator h (JString ''lt'') cv rv = Inr False
              \<and> call_operator h (JString ''lte'') cv rv = Inr False))
   \<and> (js_gt (Finite p) (Finite q) = (p > q) \<and> js_gte (Finite p) (Finite q) = (p \<ge> q)
      \<and> js_lt (Finite p) (Finite q) = (p < q) \<and> js_lte (Finite p) (Finite q) = (p \<le> q))
   \<and> (Date_parse h cv = Inl err \<longrightarrow>
        call_operator h (JString ''gt'') cv rv = Inl err
        \<and> call_operator h (JString ''gte'') cv rv = Inl err
        \<and> call_operator h (JString ''lt'') cv rv = Inl err
        \<and> call_operator h (JString ''lte'') cv rv = Inl err)
   \<and> (reads_iso_dates h \<longrightarrow>
        call_operator h (JString ''gt'') (JString ''2024-01-01'') (JString ''2023-01-01'') = Inr True)
   \<and> (reads_bare_numerals h \<longrightarrow>
        call_operator h (JString ''gt'') (JString ''10'') (JString ''5'') = Inr True)
   \<and> (Date_parse h (JString ''abc'') = Inr NaN \<and> Number h (JString ''abc'') = Inr NaN
      \<and> Number h (JString ''5'') = Inr five \<longrightarrow>
        call_operator h (JString ''gt'') (JString ''abc'') (JString ''5'') = Inr False)
   \<and> (pickValueFromObject h (attribute r) ctx = Inr cv \<longrightarrow>
        isContextValid h ctx [r] opts = call_operator h (operator r) cv (rvalue r))"
proof -
  have p1: "Date_parse h cv = Inr a \<and> a \<noteq> NaN \<and> Date_parse h rv = Inr b \<and> b \<noteq> NaN
      \<and> new_Date h cv = Inr d \<and> new_Date h rv = Inr e \<longrightarrow>
        call_operator h (JString ''gt'') cv rv = Inr (js_gt d e)
        \<and> call_operator h (JString ''gte'') cv rv = Inr (js_gte d e)
        \<and> call_operator h (JString ''lt'') cv rv = Inr (js_lt d e)
        \<and> call_operator h (JString ''lte'') cv rv = Inr (js_lte d e)"
  proof
    assume h: "Date_parse h cv = Inr a \<and> a \<noteq> NaN \<and> Date_parse h rv = Inr b \<and> b \<noteq> NaN
      \<and> new_Date h cv = Inr d \<and> new_Date h rv = Inr e"
    then have "both_dates h cv rv = Inr True" by (simp add: both_dates_True)
    with h show "call_operator h (JString ''gt'') cv rv = Inr (js_gt d e)
        \<and> call_operator h (JString ''gte'') cv rv = Inr (js_gte d e)
        \<and> call_operator h (JString ''lt'') cv rv = Inr (js_lt d e)
        \<and> call_operator h (JString ''lte'') cv rv = Inr (js_lte d e)"
      by (simp add: comparison_on_dates)
  qed
  have p2: "(Date_parse h cv = Inr NaN \<or> (Date_parse h cv = Inr a \<and> Date_parse h rv = Inr NaN))
      \<and> Number h cv = Inr x \<and> Number h rv = Inr y \<longrightarrow>
        call_operator h (JString ''gt'') cv rv = Inr (js_gt x y)
        \<and> call_operator h (JString ''gte'') cv rv = Inr (js_gte x y)
        \<and> call_operator h (JString ''lt'') cv rv = Inr (js_lt x y)
        \<and> call_operator h (JString ''lte'') cv rv = Inr (js_lte x y)
        \<and> (x = NaN \<or> y = NaN \<longrightarrow>
              call_operator h (JString ''gt'') cv rv = Inr False
              \<and> call_operator h (JString ''gte'') cv rv = Inr False
              \<and> call_operator h (JString ''lt'') cv rv = Inr False
              \<and> call_operator h (JString ''lte'') cv rv = Inr False)"
  proof
    assume h: "(Date_parse h cv = Inr NaN \<or> (Date_parse h cv = Inr a \<and> Date_parse h rv = Inr NaN))
      \<and> Number h cv = Inr x \<and> Number h rv = Inr y"
    then have "both_dates h cv rv = Inr False" using both_dates_False [of h cv a rv] by blast
    with h have n: "call_operator h (JString ''gt'') cv rv = Inr (js_gt x y)
        \<and> call_operator h (JString ''gte'') cv rv = Inr (js_gte x y)
        \<and> call_operator h (JString ''lt'') cv rv = Inr (js_lt x y)
        \<and> call_operator h (JString ''lte'') cv rv = Inr (js_lte x y)"
      by (simp add: comparison_on_numbers)
    have "call_operator h (JString ''gt'') cv rv = Inr False
              \<and> call_operator h (JString ''gte'') cv rv = Inr False
              \<and> call_operator h (JString ''lt'') cv rv = Inr False
              \<and> call_operator h (JString ''lte'') cv rv = Inr False" if "x = NaN \<or> y = NaN"
      using n nan_comparisons [OF that] by simp
    with n show "call_operator h (JString ''gt'') cv rv = Inr (js_gt x y)
        \<and> call_operator h (JString ''gte'') cv rv = Inr (js_gte x y)
        \<and> call_operator h (JString ''lt'') cv rv = Inr (js_lt x y)
        \<and> call_operator h (JString ''lte'') cv rv = Inr (js_lte x y)
        \<and> (x = NaN \<or> y = NaN \<longrightarrow>
              call_operator h (JString ''gt'') cv rv = Inr False
              \<and> call_operator h (JString ''gte'') cv rv = Inr False
              \<and> call_operator h (JString ''lt'') cv rv = Inr False
              \<and> call_operator h (JString ''lte'') cv rv = Inr False)"
      by blast
  qed
  have p3: "js_gt (Finite p) (Finite q) = (p > q) \<and> js_gte (Finite p) (Finite q) = (p \<ge> q)
      \<and> js_lt (Finite p) (Finite q) = (p < q) \<and> js_lte (Finite p) (Finite q) = (p \<le> q)"
    by (simp add: finite_comparisons)
  have p4: "Date_parse h cv = Inl err \<longrightarrow>
        call_operator h (JString ''gt'') cv rv = Inl err
        \<and> call_operator h (JString ''gte'') cv rv = Inl err
        \<and> call_operator h (JString ''lt'') cv rv = Inl err
        \<and> call_operator h (JString ''lte'') cv rv = Inl err"
    by (simp add: both_dates_raise comparison_raises)
  have e1: "reads_iso_dates h \<longrightarrow>
        call_operator h (JString ''gt'') (JString ''2024-01-01'') (JString ''2023-01-01'') = Inr True"
  proof
    assume "reads_iso_dates h"
    with iso_2024 iso_2023
    have f: "Date_parse h (JString ''2024-01-01'') = Inr (Finite 1704067200000)"
      "new_Date h (JString ''2024-01-01'') = Inr (Finite 1704067200000)"
      "Date_parse h (JString ''2023-01-01'') = Inr (Finite 1672531200000)"
      "new_Date h (JString ''2023-01-01'') = Inr (Finite 1672531200000)"
      unfolding reads_iso_dates_def by fastforce+
    from f(1,3) have "both_dates h (JString ''2024-01-01'') (JString ''2023-01-01'') = Inr True"
      by (simp add: both_dates_True)
    from comparison_on_dates [OF this f(2) f(4)]
    show "call_operator h (JString ''gt'') (JString ''2024-01-01'') (JString ''2023-01-01'') = Inr True"
      by (simp add: finite_comparisons)
  qed
  have e2: "reads_bare_numerals h \<longrightarrow>
        call_operator h (JString ''gt'') (JString ''10'') (JString ''5'') = Inr True"
  proof
    assume rb: "reads_bare_numerals h"
    have "\<exists>tz. \<bar>tz\<bar> \<le> 86400000
           \<and> Date_parse h (JString ''10'') = Inr (bare_numeral_time tz 10)
           \<and> new_Date h (JString ''10'') = Inr (bare_numeral_time tz 10)"
      using rb decimal_10 unfolding reads_bare_numerals_def by simp
    then obtain t1 where t1: "\<bar>t1\<bar> \<le> 86400000"
      "Date_parse h (JString ''10'') = Inr (Finite (of_int (1001894400000 - t1)))"
      "new_Date h (JString ''10'') = Inr (Finite (of_int (1001894400000 - t1)))"
      by (auto simp: bare_10)
    have "\<exists>tz. \<bar>tz\<bar> \<le> 86400000
           \<and> Date_parse h (JString ''5'') = Inr (bare_numeral_time tz 5)
           \<and> new_Date h (JString ''5'') = Inr (bare_numeral_time tz 5)"
      using rb decimal_5 unfolding reads_bare_numerals_def by simp
    then obtain t2 where t2: "\<bar>t2\<bar> \<le> 86400000"
      "Date_parse h (JString ''5'') = Inr (Finite (of_int (988675200000 - t2)))"
      "new_Date h (JString ''5'') = Inr (Finite (of_int (988675200000 - t2)))"
      by (auto simp: bare_5)
    from t1(2) t2(2) have "both_dates h (JString ''10'') (JString ''5'') = Inr True"
      by (simp add: both_dates_True)
    from comparison_on_dates [OF this t1(3) t2(3)]
    have "call_operator h (JString ''gt'') (JString ''10'') (JString ''5'')
        = Inr ((of_int (988675200000 - t2) :: rat) < of_int (1001894400000 - t1))"
      by (simp add: finite_comparisons)
    moreover from t1(1) t2(1) have "988675200000 - t2 < 1001894400000 - t1" by arith
    ultimately show "call_operator h (JString ''gt'') (JString ''10'') (JString ''5'') = Inr True"
      by simp
  qed
  have e3: "Date_parse h (JString ''abc'') = Inr NaN \<and> Number h (JString ''abc'') = Inr NaN
      \<and> Number h (JString ''5'') = Inr five \<longrightarrow>
        call_operator h (JString ''gt'') (JString ''abc'') (JString ''5'') = Inr False"
  proof
    assume h: "Date_parse h (JString ''abc'') = Inr NaN \<and> Number h (JString ''abc'') = Inr NaN
      \<and> Number h (JString ''5'') = Inr five"
    then have "both_dates h (JString ''abc'') (JString ''5'') = Inr False"
      by (simp add: both_dates_False)
    with h comparison_on_numbers [of h "JString ''abc''" "JString ''5''" NaN five]
    show "call_operator h (JString ''gt'') (JString ''abc'') (JString ''5'') = Inr False"
      by (simp add: js_gt_def js_lt_NaN_right)
  qed
  have ev: "pickValueFromObject h (attribute r) ctx = Inr cv \<longrightarrow>
        isContextValid h ctx [r] opts = call_operator h (operator r) cv (rvalue r)"
    by (simp add: single_rule predicate_def)
  from p1 p2 p3 p4 e1 e2 e3 ev show ?thesis by blast
qed

text \<open>
  The hypotheses of C1 hold on the reference host: the two ISO strings are dates and are
  compared as dates, \<open>"10"\<close> and \<open>"5"\<close> are dates of 2001 and are compared as dates,
  \<open>"13"\<close> is no date and is compared with \<open>"5"\<close> as a number, \<open>"abc"\<close> is neither, and
  an object whose \<open>toString\<close> is data makes the comparison raise.
\<close>

theorem dual_mode_comparison_witness:
  "reads_iso_dates reference_host
   \<and> call_operator reference_host (JString ''gt'') (JString ''2024-01-01'') (JString ''2023-01-01'') = Inr True
   \<and> call_operator reference_host (JString ''lt'') (JString ''2024-01-01'') (JString ''2023-01-01'') = Inr False
   \<and> reads_bare_numerals reference_host
   \<and> call_operator reference_host (JString ''gt'') (JString ''10'') (JString ''5'') = Inr True
   \<and> Date_parse reference_host (JString ''13'') = Inr NaN
   \<and> Number reference_host (JString ''13'') = Inr (Finite 13)
   \<and> Number reference_host (JString ''5'') = Inr (Finite 5)
   \<and> call_operator reference_host (JString ''gt'') (JString ''13'') (JString ''5'') = Inr True
   \<and> call_operator reference_host (JString ''lte'') (JString ''13'') (JString ''5'') = Inr False
   \<and> Date_parse reference_host (JString ''abc'') = Inr NaN
   \<and> Number reference_host (JString ''abc'') = Inr NaN
   \<and> call_operator reference_host (JString ''gt'') (JString ''abc'') (JString ''5'') = Inr False
   \<and> call_operator reference_host (JString ''lte'') (JString ''abc'') (JString ''5'') = Inr False
   \<and> Date_parse reference_host (JObject 1 [(''toString'', JString ''x'')]) = Inl TypeError
   \<and> call_operator reference_host (JString ''lt'') (JObject 1 [(''toString'', JString ''x'')])
        (JString ''5'') = Inl TypeError
   \<and> pickValueFromObject reference_host (JString ''placed'')
        (JObject 1 [(''placed'', JString ''2024-01-01'')]) = Inr (JString ''2024-01-01'')
   \<and> isContextValid reference_host (JObject 1 [(''placed'', JString ''2024-01-01'')])
        [\<lparr>attribute = JString ''placed'', operator = JString ''gt'',
           rvalue = JString ''2023-01-01''\<rparr>] None = Inr True"
proof -
  have iso: "reads_iso_dates reference_host"
    by (simp add: reference_host_def host_at_reads_iso_dates)
  have bare: "reads_bare_numerals reference_host"
    by (simp add: reference_host_def host_at_reads_bare_numerals)
  have obj: "Date_parse reference_host (JObject 1 [(''toString'', JString ''x'')]) = Inl TypeError"
    by (rule reference_unconvertible)
  have e1: "call_operator reference_host (JString ''gt'') (JString ''2024-01-01'') (JString ''2023-01-01'') = Inr True"
    using iso dual_mode_comparison [where h = reference_host,
        THEN conjunct2, THEN conjunct2, THEN conjunct2, THEN conjunct2, THEN conjunct1]
    by simp
  have e2: "call_operator reference_host (JString ''gt'') (JString ''10'') (JString ''5'') = Inr True"
    using bare dual_mode_comparison [where h = reference_host,
        THEN conjunct2, THEN conjunct2, THEN conjunct2, THEN conjunct2, THEN conjunct2,
        THEN conjunct1]
    by simp
  have e3: "call_operator reference_host (JString ''gt'') (JString ''abc'') (JString ''5'') = Inr False"
    using reference_abc reference_numbers dual_mode_comparison [where h = reference_host
        and five = "Finite 5",
        THEN conjunct2, THEN conjunct2, THEN conjunct2, THEN conjunct2, THEN conjunct2,
        THEN conjunct2, THEN conjunct1]
    by simp
  have d: "call_operator reference_host (JString ''lt'') (JString ''2024-01-01'') (JString ''2023-01-01'') = Inr False"
    using reference_dates dual_mode_comparison [where h = reference_host
        and cv = "JString ''2024-01-01''" and rv = "JString ''2023-01-01''"
        and a = "Finite 1704067200000" and b = "Finite 1672531200000"
        and d = "Finite 1704067200000" and e = "Finite 1672531200000", THEN conjunct1]
    by simp
  have n: "call_operator reference_host (JString ''gt'') (JString ''13'') (JString ''5'') = Inr True
      \<and> call_operator reference_host (JString ''lte'') (JString ''13'') (JString ''5'') = Inr False"
    using reference_13 reference_numbers dual_mode_comparison [where h = reference_host
        and cv = "JString ''13''" and rv = "JString ''5''" and a = NaN
        and x = "Finite 13" and y = "Finite 5", THEN conjunct2, THEN conjunct1]
    by (simp add: finite_comparisons)
  have nn: "call_operator reference_host (JString ''lte'') (JString ''abc'') (JString ''5'') = Inr False"
    using reference_abc reference_numbers dual_mode_comparison [where h = reference_host
        and cv = "JString ''abc''" and rv = "JString ''5''" and a = NaN
        and x = NaN and y = "Finite 5", THEN conjunct2, THEN conjunct1]
    by (simp add: js_lte_def)
  have r: "call_operator reference_host (JString ''lt'') (JObject 1 [(''toString'', JString ''x'')])
        (JString ''5'') = Inl TypeError"
    using obj dual_mode_comparison [where h = reference_host
        and cv = "JObject 1 [(''toString'', JString ''x'')]" and rv = "JString ''5''"
        and err = TypeError, THEN conjunct2, THEN conjunct2, THEN conjunct2, THEN conjunct1]
    by simp
  have pk: "pickValueFromObject reference_host
        (attribute \<lparr>attribute = JString ''placed'', operator = JString ''gt'',
           rvalue = JString ''2023-01-01''\<rparr>)
        (JObject 1 [(''placed'', JString ''2024-01-01'')]) = Inr (JString ''2024-01-01'')"
    by (simp add: reference_pick_string)
  have ev: "isContextValid reference_host (JObject 1 [(''placed'', JString ''2024-01-01'')])
        [\<lparr>attribute = JString ''placed'', operator = JString ''gt'',
           rvalue = JString ''2023-01-01''\<rparr>] None = Inr True"
    using pk e1 dual_mode_comparison [where h = reference_host
        and r = "\<lparr>attribute = JString ''placed'', operator = JString ''gt'',
           rvalue = JString ''2023-01-01''\<rparr>"
        and ctx = "JObject 1 [(''placed'', JString ''2024-01-01'')]"
        and cv = "JString ''2024-01-01''" and opts = None,
        THEN conjunct2, THEN conjunct2, THEN conjunct2, THEN conjunct2, THEN conjunct2,
        THEN conjunct2, THEN conjunct2]
    by simp
  from iso bare obj e1 e2 e3 d n nn r pk ev reference_13 reference_abc reference_numbers
  show ?thesis by simp
qed

subsection \<open>Aggregation\<close>




subsection \<open>Evaluating the empty rule list\<close>

text \<open>
  C3, as the claim states it: an empty rule list evaluates to \<open>true\<close> regardless of
  \<open>someAreValid\<close>. It does not: with \<open>someAreValid = true\<close> the rules are folded
  with \<open>Array.prototype.some\<close>, which is \<open>false\<close> on an empty array.
\<close>

theorem empty_rules_some_counterexample:
  "isContextValid reference_host (JObject 0 []) [] (Some \<lparr>someAreValid = True\<rparr>) = Inr False"
  by (simp add: isContextValid_def)

text \<open>
  C3, amended: whatever the host and the context, an empty rule list evaluates to
  \<open>true\<close> when the third argument is omitted or has \<open>someAreValid = false\<close>, and to
  \<open>false\<close> when \<open>someAreValid = true\<close>.
\<close>

theorem empty_rules_evaluation:
  "isContextValid h context [] None = Inr True
   \<and> isContextValid h context [] (Some \<lparr>someAreValid = False\<rparr>) = Inr True
   \<and> isContextValid h context [] (Some \<lparr>someAreValid = True\<rparr>) = Inr False"
  by (simp add: isContextValid_def)

subsection \<open>Evaluation after validation\<close>

text \<open>
  C4, as the claim states it: once \<open>validateRules\<close> has returned \<open>true\<close>, evaluation
  returns a boolean and raises nothing, on every context. It does not: validation says
  nothing of the context, and a \<open>gt\<close> rule raises \<open>TypeError\<close> on a context value that
  \<open>Date.parse\<close> cannot convert to a string.
\<close>

theorem validated_rule_raises_counterexample:
  "validateRules [\<lparr>attribute = JString ''customer'', operator = JString ''gt'',
                     rvalue = JString ''5''\<rparr>] = Inr True
   \<and> isContextValid reference_host
        (JObject 1 [(''customer'', JObject 2 [(''toString'', JString ''x'')])])
        [\<lparr>attribute = JString ''customer'', operator = JString ''gt'', rvalue = JString ''5''\<rparr>]
        None
      = Inl TypeError"
  by (simp add: validateRule_def availableOperators_def RuleOperator_IN_def RuleOperator_NIN_def
      single_rule predicate_def reference_pick_string call_gt op_gt_def both_dates_def
      isDate_def reference_unconvertible)

text \<open>
  C4, amended. If \<open>validateRules\<close> returns \<open>true\<close> on a rule list, then the operator of
  every rule is a key of the operator table and the value of every \<open>in\<close> or \<open>nin\<close> rule
  is an array, so evaluation neither leaves the table nor calls \<open>includes\<close> on something
  else. It returns a boolean, with any options, whenever the path lookup returns for
  every rule and, for the rules with a comparison operator, the conversions return on
  the context value and on the rule value. A rule of the list can raise in those two
  ways only: its lookup raises, or it compares and a conversion raises.
\<close>

theorem validated_rules_evaluate:
  "validateRules rules = Inr True \<longrightarrow>
     (\<forall>r\<in>set rules. \<exists>key p. operator r = JString key \<and> operatorsPredicate h key = Some p)
     \<and> (\<forall>r\<in>set rules. operator r = JString ''in'' \<or> operator r = JString ''nin''
           \<longrightarrow> isArray (rvalue r))
     \<and> ((\<forall>r\<in>set rules. \<exists>cv. pickValueFromObject h (attribute r) context = Inr cv
            \<and> (is_comparison (operator r) \<longrightarrow> converts h cv \<and> converts h (rvalue r)))
         \<longrightarrow> (\<exists>b. isContextValid h context rules opts = Inr b))
     \<and> (\<forall>r\<in>set rules. \<forall>e. predicate h context r = Inl e \<longrightarrow>
           pickValueFromObject h (attribute r) context = Inl e
           \<or> (\<exists>cv. pickValueFromObject h (attribute r) context = Inr cv
                \<and> is_comparison (operator r)
                \<and> \<not> (converts h cv \<and> converts h (rvalue r))))"
proof (intro impI conjI)
  assume a: "validateRules rules = Inr True"
  then have v: "\<forall>r\<in>set rules. validateRule r = Inr True"
    by (simp add: validateRules_ok_iff)
  show reg: "\<forall>r\<in>set rules. \<exists>key p. operator r = JString key \<and> operatorsPredicate h key = Some p"
    using v validated_operator_registered by blast
  show arr: "\<forall>r\<in>set rules. operator r = JString ''in'' \<or> operator r = JString ''nin''
           \<longrightarrow> isArray (rvalue r)"
  proof (intro ballI impI)
    fix r assume "r \<in> set rules" and o: "operator r = JString ''in'' \<or> operator r = JString ''nin''"
    with v have "\<not> structurally_invalid r" by (simp add: validateRule_ok_iff)
    with o show "isArray (rvalue r)" unfolding structurally_invalid_def by blast
  qed
  show "\<forall>r\<in>set rules. \<forall>e. predicate h context r = Inl e \<longrightarrow>
           pickValueFromObject h (attribute r) context = Inl e
           \<or> (\<exists>cv. pickValueFromObject h (attribute r) context = Inr cv
                \<and> is_comparison (operator r)
                \<and> \<not> (converts h cv \<and> converts h (rvalue r)))"
  proof (intro ballI allI impI)
    fix r e assume r: "r \<in> set rules" and f: "predicate h context r = Inl e"
    from reg r obtain key p where k: "operator r = JString key" "operatorsPredicate h key = Some p"
      by blast
    then have "operatorsPredicate h key \<noteq> None" by simp
    then have "key \<in> set availableOperators" by (simp only: operatorsPredicate_dom)
    with k(1) have "\<not> (\<forall>key\<in>set availableOperators. operator r \<noteq> JString key)" by blast
    moreover from arr r
    have "\<not> ((operator r = JString ''in'' \<or> operator r = JString ''nin'') \<and> \<not> isArray (rvalue r))"
      by blast
    ultimately show "pickValueFromObject h (attribute r) context = Inl e
           \<or> (\<exists>cv. pickValueFromObject h (attribute r) context = Inr cv
                \<and> is_comparison (operator r)
                \<and> \<not> (converts h cv \<and> converts h (rvalue r)))"
      using predicate_failure_modes [OF f] by blast
  qed
next
  assume a: "validateRules rules = Inr True"
    and c: "\<forall>r\<in>set rules. \<exists>cv. pickValueFromObject h (attribute r) context = Inr cv
            \<and> (is_comparison (operator r) \<longrightarrow> converts h cv \<and> converts h (rvalue r))"
  from a have v: "\<forall>r\<in>set rules. validateRule r = Inr True"
    by (simp add: validateRules_ok_iff)
  have t: "\<forall>r\<in>set rules. \<exists>b. predicate h context r = Inr b"
  proof
    fix r assume r: "r \<in> set rules"
    with v have vr: "validateRule r = Inr True" by blast
    from c r obtain cv where cv: "pickValueFromObject h (attribute r) context = Inr cv"
      "is_comparison (operator r) \<longrightarrow> converts h cv \<and> converts h (rvalue r)"
      by blast
    from validated_predicate_returns [OF vr cv] show "\<exists>b. predicate h context r = Inr b" .
  qed
  show "\<exists>b. isContextValid h context rules opts = Inr b"
  proof (cases opts)
    case None
    then show ?thesis using every_total [OF t] by (simp add: isContextValid_default)
  next
    case (Some os)
    then show ?thesis using every_total [OF t] some_total [OF t]
      by (simp add: isContextValid_def)
  qed
qed

theorem validated_rules_evaluate_witness:
  "validateRules [\<lparr>attribute = JString ''region'', operator = JString ''in'',
                     rvalue = JArray 5 [JString ''eu'', JString ''us'']\<rparr>,
                  \<lparr>attribute = JString ''placed'', operator = JString ''gte'',
                     rvalue = JString ''2024-01-01''\<rparr>] = Inr True
   \<and> pickValueFromObject reference_host (JString ''region'')
        (JObject 1 [(''region'', JString ''us''), (''placed'', JString ''2024-02-30'')])
      = Inr (JString ''us'')
   \<and> pickValueFromObject reference_host (JString ''placed'')
        (JObject 1 [(''region'', JString ''us''), (''placed'', JString ''2024-02-30'')])
      = Inr (JString ''2024-02-30'')
   \<and> converts reference_host (JString ''2024-02-30'')
   \<and> converts reference_host (JString ''2024-01-01'')
   \<and> (\<exists>b. isContextValid reference_host
              (JObject 1 [(''region'', JString ''us''), (''placed'', JString ''2024-02-30'')])
              [\<lparr>attribute = JString ''region'', operator = JString ''in'',
                 rvalue = JArray 5 [JString ''eu'', JString ''us'']\<rparr>,
               \<lparr>attribute = JString ''placed'', operator = JString ''gte'',
                 rvalue = JString ''2024-01-01''\<rparr>] None = Inr b)"
proof -
  let ?r1 = "\<lparr>attribute = JString ''region'', operator = JString ''in'',
                     rvalue = JArray 5 [JString ''eu'', JString ''us'']\<rparr>"
  let ?r2 = "\<lparr>attribute = JString ''placed'', operator = JString ''gte'',
                     rvalue = JString ''2024-01-01''\<rparr>"
  let ?c = "JObject 1 [(''region'', JString ''us''), (''placed'', JString ''2024-02-30'')]"
  have v: "validateRules [?r1, ?r2] = Inr True"
    by (simp add: validateRule_def availableOperators_def RuleOperator_IN_def RuleOperator_NIN_def)
  have p1: "pickValueFromObject reference_host (JString ''region'') ?c = Inr (JString ''us'')"
    and p2: "pickValueFromObject reference_host (JString ''placed'') ?c = Inr (JString ''2024-02-30'')"
    by (simp_all add: reference_pick_string)
  have i1: "iso_date_only ''2024-02-30'' = Some 1709251200000"
    by (simp add: iso_date_only_def unsigned_decimal_def digit_def days_from_civil_def)
  have c1: "converts reference_host (JString ''2024-02-30'')"
    by (simp add: converts_def reference_host_def host_at_strings parse_date_string_def i1
        string_to_number_def has_digit_def digit_def signed_decimal_def exact_decimal_def
        unsigned_decimal_def)
  have c2: "converts reference_host (JString ''2024-01-01'')"
    by (simp add: converts_def reference_host_def host_at_strings parse_date_string_def iso_2024
        string_to_number_def has_digit_def digit_def signed_decimal_def exact_decimal_def
        unsigned_decimal_def)
  have n1: "\<not> is_comparison (operator ?r1)" by (simp add: is_comparison_def)
  have h: "\<forall>r\<in>set [?r1, ?r2]. \<exists>cv. pickValueFromObject reference_host (attribute r) ?c = Inr cv
            \<and> (is_comparison (operator r)
                 \<longrightarrow> converts reference_host cv \<and> converts reference_host (rvalue r))"
    using p1 p2 c1 c2 n1 by simp
  have "\<exists>b. isContextValid reference_host ?c [?r1, ?r2] None = Inr b"
    using v h validated_rules_evaluate [of "[?r1, ?r2]" reference_host ?c None] by blast
  with v p1 p2 c1 c2 show ?thesis by blast
qed

subsection \<open>Validation of one rule\<close>

text \<open>
  C5. \<open>validateRule\<close> either returns \<open>true\<close> or raises a \<open>MedusaError\<close> of type
  \<open>INVALID_DATA\<close>; it raises exactly when the descriptor is structurally invalid in the
  specification's sense, and returns \<open>true\<close> (never the rule) exactly when it is not.
\<close>

theorem validateRule_invalid_data:
  "(validateRule r = Inr True \<or> (\<exists>msg. validateRule r = Inl (MedusaError INVALID_DATA msg)))
   \<and> ((\<exists>msg. validateRule r = Inl (MedusaError INVALID_DATA msg)) \<longleftrightarrow> structurally_invalid r)
   \<and> (validateRule r = Inr True \<longleftrightarrow> \<not> structurally_invalid r)"
  using validateRule_result [of r] validateRule_ok_iff [of r] by auto

theorem validateRule_invalid_data_witness:
  "\<not> structurally_invalid \<lparr>attribute = JString ''x'', operator = JString ''eq'', rvalue = JString ''y''\<rparr>
   \<and> validateRule \<lparr>attribute = JString ''x'', operator = JString ''eq'', rvalue = JString ''y''\<rparr> = Inr True
   \<and> structurally_invalid \<lparr>attribute = JString ''x'', operator = JString ''bogus'', rvalue = JString ''y''\<rparr>
   \<and> validateRule \<lparr>attribute = JString ''x'', operator = JString ''bogus'', rvalue = JString ''y''\<rparr>
       = Inl (MedusaError INVALID_DATA
           ''Rule operator bogus is not supported. Must be one of in, nin, eq, ne, gt, gte, lt, lte'')"
proof -
  let ?good = "\<lparr>attribute = JString ''x'', operator = JString ''eq'', rvalue = JString ''y''\<rparr>"
  let ?bad = "\<lparr>attribute = JString ''x'', operator = JString ''bogus'', rvalue = JString ''y''\<rparr>"
  have g: "\<not> structurally_invalid ?good"
    by (simp add: structurally_invalid_def)
  have b: "validateRule ?bad = Inl (MedusaError INVALID_DATA
           ''Rule operator bogus is not supported. Must be one of in, nin, eq, ne, gt, gte, lt, lte'')"
    by (simp add: validateRule_def availableOperators_def)
  from g validateRule_invalid_data [of ?good] have "validateRule ?good = Inr True" by blast
  moreover from b validateRule_invalid_data [of ?bad] have "structurally_invalid ?bad" by blast
  ultimately show ?thesis using g b by blast
qed

text \<open>
  C6, as the claim states it: an operator that differs from a supported one only in
  letter case is accepted. It is not: \<open>"EQ"\<close> is rejected as unsupported, since
  \<open>availableOperators.includes\<close> compares the strings as they are.
\<close>

theorem uppercase_operator_counterexample:
  "validateRule \<lparr>attribute = JString ''x'', operator = JString ''EQ'', rvalue = JString ''y''\<rparr>
     = Inl (MedusaError INVALID_DATA
         ''Rule operator EQ is not supported. Must be one of in, nin, eq, ne, gt, gte, lt, lte'')"
  by (simp add: validateRule_def availableOperators_def)

text \<open>
  C6, amended: the operator is compared exactly, without change of case. A rule that
  \<open>validateRule\<close> accepts has one of the eight lowercase names as its operator, and a
  rule with a non-empty attribute, a truthy value and any other non-empty operator
  string (such as \<open>"EQ"\<close> or \<open>"In"\<close>) is rejected with the message that names the
  operator and lists the eight supported ones.
\<close>

theorem operator_case_sensitive:
  "(validateRule r = Inr True \<longrightarrow> (\<exists>s \<in> set availableOperators. operator r = JString s))
   \<and> (s \<notin> set availableOperators \<and> s \<noteq> [] \<and> a \<noteq> [] \<and> truthy v \<longrightarrow>
        validateRule \<lparr>attribute = JString a, operator = JString s, rvalue = v\<rparr>
          = Inl (MedusaError INVALID_DATA
               (''Rule operator '' @ s @ '' is not supported. Must be one of in, nin, eq, ne, gt, gte, lt, lte'')))"
proof (intro conjI impI)
  assume "validateRule r = Inr True"
  then have "array_includes (map JString availableOperators) (operator r)"
    unfolding validateRule_def by (simp split: if_splits)
  then show "\<exists>s \<in> set availableOperators. operator r = JString s"
    by (simp only: array_includes_strings)
next
  assume h: "s \<notin> set availableOperators \<and> s \<noteq> [] \<and> a \<noteq> [] \<and> truthy v"
  then have "\<not> array_includes (map JString availableOperators) (JString s)"
    by (simp only: array_includes_strings) blast
  with h show "validateRule \<lparr>attribute = JString a, operator = JString s, rvalue = v\<rparr>
          = Inl (MedusaError INVALID_DATA
               (''Rule operator '' @ s @ '' is not supported. Must be one of in, nin, eq, ne, gt, gte, lt, lte''))"
    unfolding validateRule_def by (simp add: join_availableOperators)
qed

theorem operator_case_sensitive_witness:
  "''In'' \<notin> set availableOperators \<and> ''In'' \<noteq> [] \<and> ''x'' \<noteq> [] \<and> truthy (JArray 0 [JString ''a''])
   \<and> validateRule \<lparr>attribute = JString ''x'', operator = JString ''In'', rvalue = JArray 0 [JString ''a'']\<rparr>
       = Inl (MedusaError INVALID_DATA
           ''Rule operator In is not supported. Must be one of in, nin, eq, ne, gt, gte, lt, lte'')"
proof -
  have h: "''In'' \<notin> set availableOperators \<and> ''In'' \<noteq> [] \<and> ''x'' \<noteq> [] \<and> truthy (JArray 0 [JString ''a''])"
    by (simp add: availableOperators_def)
  from h operator_case_sensitive [of _ "''In''" "''x''" "JArray 0 [JString ''a'']"]
  have "validateRule \<lparr>attribute = JString ''x'', operator = JString ''In'', rvalue = JArray 0 [JString ''a'']\<rparr>
       = Inl (MedusaError INVALID_DATA
           (''Rule operator '' @ ''In'' @ '' is not supported. Must be one of in, nin, eq, ne, gt, gte, lt, lte''))"
    by blast
  with h show ?thesis by simp
qed

text \<open>
  C10. For \<open>in\<close> and \<open>nin\<close> with a non-empty string attribute, the value is accepted
  exactly when it is an array: any array passes, the empty one and one with elements
  that are not strings included, while the empty string is rejected as the value of a
  scalar operator by the check on falsy fields.
\<close>

theorem in_nin_value_only_array:
  "a \<noteq> [] \<and> (op = ''in'' \<or> op = ''nin'') \<longrightarrow>
     validateRule \<lparr>attribute = JString a, operator = JString op, rvalue = JArray ref xs\<rparr> = Inr True
     \<and> validateRule \<lparr>attribute = JString a, operator = JString op, rvalue = JArray ref []\<rparr> = Inr True
     \<and> (validateRule \<lparr>attribute = JString a, operator = JString op, rvalue = v\<rparr> = Inr True
          \<longleftrightarrow> isArray v)
     \<and> validateRule \<lparr>attribute = JString a, operator = JString ''eq'', rvalue = JString []\<rparr>
          = Inl (MedusaError INVALID_DATA
                  ''Rule must have an attribute, an operator and contextValue value'')"
proof (intro impI)
  assume h: "a \<noteq> [] \<and> (op = ''in'' \<or> op = ''nin'')"
  have arr: "validateRule \<lparr>attribute = JString a, operator = JString op, rvalue = JArray ref' ys\<rparr> = Inr True"
    for ref' ys
    using h by (auto simp: validateRule_def availableOperators_def RuleOperator_IN_def RuleOperator_NIN_def)
  have iff: "validateRule \<lparr>attribute = JString a, operator = JString op, rvalue = v\<rparr> = Inr True
          \<longleftrightarrow> isArray v"
    using h by (cases v)
      (auto simp: validateRule_def availableOperators_def RuleOperator_IN_def RuleOperator_NIN_def)
  have empty: "validateRule \<lparr>attribute = JString a, operator = JString ''eq'', rvalue = JString []\<rparr>
          = Inl (MedusaError INVALID_DATA
                  ''Rule must have an attribute, an operator and contextValue value'')"
    by (simp add: validateRule_def)
  from arr iff empty show "validateRule \<lparr>attribute = JString a, operator = JString op, rvalue = JArray ref xs\<rparr> = Inr True
     \<and> validateRule \<lparr>attribute = JString a, operator = JString op, rvalue = JArray ref []\<rparr> = Inr True
     \<and> (validateRule \<lparr>attribute = JString a, operator = JString op, rvalue = v\<rparr> = Inr True
          \<longleftrightarrow> isArray v)
     \<and> validateRule \<lparr>attribute = JString a, operator = JString ''eq'', rvalue = JString []\<rparr>
          = Inl (MedusaError INVALID_DATA
                  ''Rule must have an attribute, an operator and contextValue value'')"
    by blast
qed

theorem in_nin_value_only_array_witness:
  "''x'' \<noteq> [] \<and> (''nin'' = ''in'' \<or> ''nin'' = ''nin'')
   \<and> validateRule \<lparr>attribute = JString ''x'', operator = JString ''nin'',
        rvalue = JArray 7 [JNumber (Finite 3), JNull, JObject 8 []]\<rparr> = Inr True
   \<and> validateRule \<lparr>attribute = JString ''x'', operator = JString ''nin'', rvalue = JArray 7 []\<rparr> = Inr True
   \<and> validateRule \<lparr>attribute = JString ''x'', operator = JString ''nin'', rvalue = JString ''a''\<rparr> \<noteq> Inr True"
proof -
  have h: "''x'' \<noteq> [] \<and> (''nin'' = ''in'' \<or> ''nin'' = ''nin'')" by simp
  show ?thesis
    using h in_nin_value_only_array [of "''x''" "''nin''" 7 "[JNumber (Finite 3), JNull, JObject 8 []]" "JString ''a''"]
    by simp
qed

subsection \<open>Validation of a rule list\<close>

text \<open>
  C8. \<open>validateRules\<close> returns \<open>true\<close> exactly when \<open>validateRule\<close> does on every
  element. Otherwise it raises the error of the first element that fails, whatever
  comes after that element: on a list of three whose first element is valid and whose
  second is not, the result is the second element's error for any third element.
\<close>

theorem validateRules_fail_fast:
  "(validateRules rs = Inr True \<longleftrightarrow> (\<forall>r\<in>set rs. validateRule r = Inr True))
   \<and> ((\<forall>r\<in>set ok. validateRule r = Inr True) \<and> validateRule bad = Inl e
        \<longrightarrow> validateRules (ok @ bad # rest) = Inl e)
   \<and> (validateRule v1 = Inr True \<and> validateRule bad = Inl e
        \<longrightarrow> validateRules [v1, bad, v3] = Inl e)"
  using validateRules_ok_iff [of rs] validateRules_first_failure [of ok bad e rest]
    validateRules_first_failure [of "[v1]" bad e "[v3]"]
  by auto

theorem validateRules_fail_fast_witness:
  "validateRule \<lparr>attribute = JString ''x'', operator = JString ''eq'', rvalue = JString ''y''\<rparr> = Inr True
   \<and> validateRule \<lparr>attribute = JString ''x'', operator = JString ''in'', rvalue = JString ''y''\<rparr>
       = Inl (MedusaError INVALID_DATA ''Rule value must be an array for in/nin operators'')
   \<and> validateRules
        [\<lparr>attribute = JString ''x'', operator = JString ''eq'', rvalue = JString ''y''\<rparr>,
         \<lparr>attribute = JString ''x'', operator = JString ''in'', rvalue = JString ''y''\<rparr>,
         \<lparr>attribute = JString ''x'', operator = JString ''eq'', rvalue = JString ''y''\<rparr>]
       = Inl (MedusaError INVALID_DATA ''Rule value must be an array for in/nin operators'')
   \<and> validateRules
        [\<lparr>attribute = JString ''x'', operator = JString ''eq'', rvalue = JString ''y''\<rparr>,
         \<lparr>attribute = JString ''x'', operator = JString ''in'', rvalue = JString ''y''\<rparr>,
         \<lparr>attribute = JNull, operator = JNull, rvalue = JNull\<rparr>]
       = Inl (MedusaError INVALID_DATA ''Rule value must be an array for in/nin operators'')"
proof -
  let ?ok = "\<lparr>attribute = JString ''x'', operator = JString ''eq'', rvalue = JString ''y''\<rparr>"
  let ?bad = "\<lparr>attribute = JString ''x'', operator = JString ''in'', rvalue = JString ''y''\<rparr>"
  let ?e = "MedusaError INVALID_DATA ''Rule value must be an array for in/nin operators''"
  have ok: "validateRule ?ok = Inr True"
    by (simp add: validateRule_def availableOperators_def RuleOperator_IN_def RuleOperator_NIN_def)
  have bad: "validateRule ?bad = Inl ?e"
    by (simp add: validateRule_def availableOperators_def RuleOperator_IN_def)
  have "validateRules [?ok, ?bad, ?ok] = Inl ?e"
    using ok bad validateRules_fail_fast [where ?v1.0 = ?ok and bad = ?bad and e = ?e and ?v3.0 = ?ok]
    by blast
  moreover have "validateRules [?ok, ?bad, \<lparr>attribute = JNull, operator = JNull, rvalue = JNull\<rparr>] = Inl ?e"
    using ok bad validateRules_fail_fast [where ?v1.0 = ?ok and bad = ?bad and e = ?e
        and ?v3.0 = "\<lparr>attribute = JNull, operator = JNull, rvalue = JNull\<rparr>"]
    by blast
  ultimately show ?thesis using ok bad by blast
qed

subsection \<open>Membership operators\<close>

text \<open>
  C7. When the lookup of the rule's attribute returns a value and the rule's value is
  an array, the rule with operator \<open>in\<close> evaluates to \<open>true\<close> exactly when some element
  of the array is the same value (SameValueZero) as the context value, and the rule
  with operator \<open>nin\<close> on the same attribute and array evaluates to the negation. When
  the array holds strings only, being the same value is being an element of the list.
\<close>

theorem in_membership_nin_negation:
  "pickValueFromObject h (attribute r) context = Inr cv \<and> rvalue r = JArray a xs \<longrightarrow>
     isContextValid h context [r\<lparr>operator := JString ''in''\<rparr>] opts
       = Inr (\<exists>x\<in>set xs. same_value_zero x cv)
     \<and> isContextValid h context [r\<lparr>operator := JString ''nin''\<rparr>] opts
       = Inr (\<not> (\<exists>x\<in>set xs. same_value_zero x cv))
     \<and> ((\<forall>x\<in>set xs. isString x) \<longrightarrow>
          isContextValid h context [r\<lparr>operator := JString ''in''\<rparr>] opts = Inr (cv \<in> set xs)
          \<and> isContextValid h context [r\<lparr>operator := JString ''nin''\<rparr>] opts = Inr (cv \<notin> set xs))"
proof (intro impI)
  assume h: "pickValueFromObject h (attribute r) context = Inr cv \<and> rvalue r = JArray a xs"
  have i: "isContextValid h context [r\<lparr>operator := JString ''in''\<rparr>] opts
       = Inr (\<exists>x\<in>set xs. same_value_zero x cv)"
    using h by (simp add: single_rule predicate_def call_in op_in_def includes_call_def array_includes_iff)
  have n: "isContextValid h context [r\<lparr>operator := JString ''nin''\<rparr>] opts
       = Inr (\<not> (\<exists>x\<in>set xs. same_value_zero x cv))"
    using h by (simp add: single_rule predicate_def call_nin op_nin_def includes_call_def array_includes_iff)
  have s: "(\<exists>x\<in>set xs. same_value_zero x cv) = (cv \<in> set xs)" if st: "\<forall>x\<in>set xs. isString x"
  proof -
    have "same_value_zero x cv = (cv = x)" if "x \<in> set xs" for x
    proof -
      from st that obtain t where "x = JString t" by (auto simp: isString_iff)
      then show ?thesis by (simp add: strict_equals_string_left)
    qed
    then show ?thesis by blast
  qed
  from i n s show "isContextValid h context [r\<lparr>operator := JString ''in''\<rparr>] opts
       = Inr (\<exists>x\<in>set xs. same_value_zero x cv)
     \<and> isContextValid h context [r\<lparr>operator := JString ''nin''\<rparr>] opts
       = Inr (\<not> (\<exists>x\<in>set xs. same_value_zero x cv))
     \<and> ((\<forall>x\<in>set xs. isString x) \<longrightarrow>
          isContextValid h context [r\<lparr>operator := JString ''in''\<rparr>] opts = Inr (cv \<in> set xs)
          \<and> isContextValid h context [r\<lparr>operator := JString ''nin''\<rparr>] opts = Inr (cv \<notin> set xs))"
  proof (intro conjI impI)
    assume st: "\<forall>x\<in>set xs. isString x"
    show "isContextValid h context [r\<lparr>operator := JString ''in''\<rparr>] opts = Inr (cv \<in> set xs)"
      using i s [OF st] by simp
    show "isContextValid h context [r\<lparr>operator := JString ''nin''\<rparr>] opts = Inr (cv \<notin> set xs)"
      using n s [OF st] by simp
  qed
qed

theorem in_membership_nin_negation_witness:
  "pickValueFromObject reference_host (attribute \<lparr>attribute = JString ''region'', operator = JUndefined,
        rvalue = JArray 5 [JString ''eu'', JString ''us'']\<rparr>) (JObject 1 [(''region'', JString ''us'')])
      = Inr (JString ''us'')
   \<and> rvalue \<lparr>attribute = JString ''region'', operator = JUndefined,
        rvalue = JArray 5 [JString ''eu'', JString ''us'']\<rparr> = JArray 5 [JString ''eu'', JString ''us'']
   \<and> isContextValid reference_host (JObject 1 [(''region'', JString ''us'')])
        [\<lparr>attribute = JString ''region'', operator = JString ''in'',
           rvalue = JArray 5 [JString ''eu'', JString ''us'']\<rparr>] None = Inr True
   \<and> isContextValid reference_host (JObject 1 [(''region'', JString ''us'')])
        [\<lparr>attribute = JString ''region'', operator = JString ''nin'',
           rvalue = JArray 5 [JString ''eu'', JString ''us'']\<rparr>] None = Inr False"
proof -
  let ?r = "\<lparr>attribute = JString ''region'', operator = JUndefined,
        rvalue = JArray 5 [JString ''eu'', JString ''us'']\<rparr>"
  let ?c = "JObject 1 [(''region'', JString ''us'')]"
  have p: "pickValueFromObject reference_host (attribute ?r) ?c = Inr (JString ''us'')
     \<and> rvalue ?r = JArray 5 [JString ''eu'', JString ''us'']"
    by (simp add: reference_pick_string)
  have "isContextValid reference_host ?c [?r\<lparr>operator := JString ''in''\<rparr>] None
       = Inr (\<exists>x\<in>set [JString ''eu'', JString ''us'']. same_value_zero x (JString ''us''))
     \<and> isContextValid reference_host ?c [?r\<lparr>operator := JString ''nin''\<rparr>] None
       = Inr (\<not> (\<exists>x\<in>set [JString ''eu'', JString ''us'']. same_value_zero x (JString ''us'')))"
    using p in_membership_nin_negation [of reference_host ?r ?c "JString ''us''" 5
        "[JString ''eu'', JString ''us'']" None]
    by blast
  with p show ?thesis by simp
qed

text \<open>
  C9. When the lookup of the attribute returns, whatever value it returns, a rule with
  operator \<open>in\<close> and an empty array evaluates to \<open>false\<close> and a rule with operator
  \<open>nin\<close> and an empty array evaluates to \<open>true\<close>.
\<close>

theorem empty_sequence_in_nin:
  "pickValueFromObject h a context = Inr cv \<longrightarrow>
     isContextValid h context [\<lparr>attribute = a, operator = JString ''in'', rvalue = JArray ref []\<rparr>] opts
       = Inr False
     \<and> isContextValid h context [\<lparr>attribute = a, operator = JString ''nin'', rvalue = JArray ref []\<rparr>] opts
       = Inr True"
  by (simp add: single_rule predicate_def call_in call_nin op_in_def op_nin_def includes_call_def)

theorem empty_sequence_in_nin_witness:
  "pickValueFromObject reference_host (JString ''customer.group'')
      (JObject 1 [(''customer'', JObject 2 [(''group'', JString ''vip'')])]) = Inr (JString ''vip'')
   \<and> isContextValid reference_host (JObject 1 [(''customer'', JObject 2 [(''group'', JString ''vip'')])])
       [\<lparr>attribute = JString ''customer.group'', operator = JString ''in'', rvalue = JArray 3 []\<rparr>] None
       = Inr False
   \<and> isContextValid reference_host (JObject 1 [(''customer'', JObject 2 [(''group'', JString ''vip'')])])
       [\<lparr>attribute = JString ''customer.group'', operator = JString ''nin'', rvalue = JArray 3 []\<rparr>] None
       = Inr True"
proof -
  have p: "pickValueFromObject reference_host (JString ''customer.group'')
      (JObject 1 [(''customer'', JObject 2 [(''group'', JString ''vip'')])]) = Inr (JString ''vip'')"
    by (simp add: reference_pick_string)
  show ?thesis
    using p empty_sequence_in_nin [of reference_host "JString ''customer.group''"
        "JObject 1 [(''customer'', JObject 2 [(''group'', JString ''vip'')])]" "JString ''vip''" 3 None]
    by blast
qed

end
